theory Spec2Isabelle
  imports Complex_Main
begin

section \<open>Numbers, vectors, matrices and rigid transforms\<close>

text \<open>
  The source computes in \<^verbatim>\<open>FCL_REAL\<close>. The embedding reads every arithmetic
  operation of the source as the exact operation on \<^typ>\<open>real\<close>: rounding, overflow to an
  infinity and NaN are outside the model. The comparisons of the source
  (\<^verbatim>\<open>== (FCL_REAL)0.0\<close>, \<^verbatim>\<open>> 0\<close>, \<^verbatim>\<open>< 0\<close>) are the comparisons of \<^typ>\<open>real\<close>.
\<close>

definition FCL_REAL_max :: real where
  \<comment> \<open>Modelled from the spec: \<^verbatim>\<open>std::numeric_limits<FCL_REAL>::max()\<close>; the typedef of
      \<^verbatim>\<open>FCL_REAL\<close> is in a header, outside \<^verbatim>\<open>geometric_shapes_utility.cpp\<close>. The value is the
      largest finite IEEE double. It is the sentinel the source stores for an unbounded
      side, which the specification calls "infinity".\<close>
  "FCL_REAL_max = (2 - 1 / 2 ^ 52) * 2 ^ 1023"

datatype Vector3d = Vector3d (vx: real) (vy: real) (vz: real)

datatype Matrix3d = Matrix3d
  (m00: real) (m01: real) (m02: real)
  (m10: real) (m11: real) (m12: real)
  (m20: real) (m21: real) (m22: real)

record Transform3d =
  linear_part :: Matrix3d
  translation :: Vector3d

text \<open>Indexed access \<^verbatim>\<open>v[i]\<close> and \<^verbatim>\<open>R(i, j)\<close>; the source only uses indices below 3.\<close>

definition vec_at :: "Vector3d \<Rightarrow> nat \<Rightarrow> real" where
  "vec_at v i = (if i = 0 then vx v else if i = 1 then vy v else vz v)"

definition mat_at :: "Matrix3d \<Rightarrow> nat \<Rightarrow> nat \<Rightarrow> real" where
  "mat_at R i j =
     (if i = 0 then vec_at (Vector3d (m00 R) (m01 R) (m02 R)) j
      else if i = 1 then vec_at (Vector3d (m10 R) (m11 R) (m12 R)) j
      else vec_at (Vector3d (m20 R) (m21 R) (m22 R)) j)"

definition vec_add :: "Vector3d \<Rightarrow> Vector3d \<Rightarrow> Vector3d" where
  "vec_add a b = Vector3d (vx a + vx b) (vy a + vy b) (vz a + vz b)"

definition vec_sub :: "Vector3d \<Rightarrow> Vector3d \<Rightarrow> Vector3d" where
  "vec_sub a b = Vector3d (vx a - vx b) (vy a - vy b) (vz a - vz b)"

definition vec_scale :: "Vector3d \<Rightarrow> real \<Rightarrow> Vector3d" where
  "vec_scale a c = Vector3d (vx a * c) (vy a * c) (vz a * c)"

definition vec_constant :: "real \<Rightarrow> Vector3d" where
  "vec_constant c = Vector3d c c c"

definition dot :: "Vector3d \<Rightarrow> Vector3d \<Rightarrow> real" where
  "dot a b = vx a * vx b + vy a * vy b + vz a * vz b"

definition mat_identity :: Matrix3d where
  "mat_identity = Matrix3d 1 0 0  0 1 0  0 0 1"

definition mat_vec :: "Matrix3d \<Rightarrow> Vector3d \<Rightarrow> Vector3d" where
  "mat_vec R v = Vector3d
     (m00 R * vx v + m01 R * vy v + m02 R * vz v)
     (m10 R * vx v + m11 R * vy v + m12 R * vz v)
     (m20 R * vx v + m21 R * vy v + m22 R * vz v)"

definition mat_mul :: "Matrix3d \<Rightarrow> Matrix3d \<Rightarrow> Matrix3d" where
  "mat_mul A B = Matrix3d
     (m00 A * m00 B + m01 A * m10 B + m02 A * m20 B)
     (m00 A * m01 B + m01 A * m11 B + m02 A * m21 B)
     (m00 A * m02 B + m01 A * m12 B + m02 A * m22 B)
     (m10 A * m00 B + m11 A * m10 B + m12 A * m20 B)
     (m10 A * m01 B + m11 A * m11 B + m12 A * m21 B)
     (m10 A * m02 B + m11 A * m12 B + m12 A * m22 B)
     (m20 A * m00 B + m21 A * m10 B + m22 A * m20 B)
     (m20 A * m01 B + m21 A * m11 B + m22 A * m21 B)
     (m20 A * m02 B + m21 A * m12 B + m22 A * m22 B)"

definition mat_transpose :: "Matrix3d \<Rightarrow> Matrix3d" where
  "mat_transpose R = Matrix3d
     (m00 R) (m10 R) (m20 R)
     (m01 R) (m11 R) (m21 R)
     (m02 R) (m12 R) (m22 R)"

definition mat_det :: "Matrix3d \<Rightarrow> real" where
  "mat_det R =
     m00 R * (m11 R * m22 R - m12 R * m21 R)
   - m01 R * (m10 R * m22 R - m12 R * m20 R)
   + m02 R * (m10 R * m21 R - m11 R * m20 R)"

definition mat_col :: "Matrix3d \<Rightarrow> nat \<Rightarrow> Vector3d" where
  "mat_col R j = Vector3d (mat_at R 0 j) (mat_at R 1 j) (mat_at R 2 j)"

definition set_col0 :: "Matrix3d \<Rightarrow> Vector3d \<Rightarrow> Matrix3d" where
  \<comment> \<open>\<^verbatim>\<open>axis.col(0) = n\<close>: the other two columns keep what they held.\<close>
  "set_col0 A n = Matrix3d
     (vx n) (m01 A) (m02 A)
     (vy n) (m11 A) (m12 A)
     (vz n) (m21 A) (m22 A)"

definition tf_apply :: "Transform3d \<Rightarrow> Vector3d \<Rightarrow> Vector3d" where
  \<comment> \<open>\<^verbatim>\<open>tf * p\<close>: rotate, then translate.\<close>
  "tf_apply tf p = vec_add (mat_vec (linear_part tf) p) (translation tf)"

definition tf_compose :: "Transform3d \<Rightarrow> Transform3d \<Rightarrow> Transform3d" where
  \<comment> \<open>\<^verbatim>\<open>tf_bv * tf\<close>: the transform that applies \<open>tf\<close> first and \<open>tf_bv\<close> second.\<close>
  "tf_compose tf_bv tf =
     \<lparr> linear_part = mat_mul (linear_part tf_bv) (linear_part tf),
       translation = tf_apply tf_bv (translation tf) \<rparr>"

definition tf_translate :: "Transform3d \<Rightarrow> Vector3d \<Rightarrow> Transform3d" where
  \<comment> \<open>\<^verbatim>\<open>tf_bv * Eigen::Translation3d(c)\<close>.\<close>
  "tf_translate tf_bv c =
     \<lparr> linear_part = linear_part tf_bv, translation = tf_apply tf_bv c \<rparr>"

definition tf_identity :: Transform3d where
  "tf_identity = \<lparr> linear_part = mat_identity, translation = Vector3d 0 0 0 \<rparr>"

definition rigid :: "Transform3d \<Rightarrow> bool" where
  \<comment> \<open>A rigid transform: the rotation is orthonormal with determinant \<open>+1\<close>.\<close>
  "rigid tf \<longleftrightarrow>
     mat_mul (mat_transpose (linear_part tf)) (linear_part tf) = mat_identity
     \<and> mat_det (linear_part tf) = 1"

definition rot_z90 :: Matrix3d where
  \<comment> \<open>The rotation by 90 degrees about the z axis.\<close>
  "rot_z90 = Matrix3d 0 (-1) 0  1 0 0  0 0 1"

section \<open>Shapes\<close>

text \<open>
  The shape classes are declared in a header, outside \<^verbatim>\<open>geometric_shapes_utility.cpp\<close>; the records
  below hold the members the source reads (\<^verbatim>\<open>side\<close>, \<^verbatim>\<open>radius\<close>, \<^verbatim>\<open>radii\<close>,
  \<^verbatim>\<open>lz\<close>, \<^verbatim>\<open>points\<close>, \<^verbatim>\<open>a\<close>, \<^verbatim>\<open>b\<close>, \<^verbatim>\<open>c\<close>, \<^verbatim>\<open>n\<close>, \<^verbatim>\<open>d\<close>), prefixed
  by the class where two classes share a member name.
\<close>

record Box =
  side :: Vector3d

record Sphere =
  sphere_radius :: real

record Ellipsoid =
  radii :: Vector3d

record Capsule =
  capsule_radius :: real
  capsule_lz :: real

record Cone =
  cone_radius :: real
  cone_lz :: real

record Cylinder =
  cylinder_radius :: real
  cylinder_lz :: real

record Convex =
  points :: "Vector3d list"

definition num_points :: "Convex \<Rightarrow> nat" where
  \<comment> \<open>The source keeps the length of the point array beside it.\<close>
  "num_points s = length (points s)"

record TriangleP =
  tri_a :: Vector3d
  tri_b :: Vector3d
  tri_c :: Vector3d

record Halfspace =
  hs_n :: Vector3d
  hs_d :: real

record Plane =
  pl_n :: Vector3d
  pl_d :: real

datatype Shape =
    SBox Box
  | SSphere Sphere
  | SEllipsoid Ellipsoid
  | SCapsule Capsule
  | SCone Cone
  | SCylinder Cylinder
  | SConvex Convex
  | STriangleP TriangleP
  | SHalfspace Halfspace
  | SPlane Plane

fun well_formed :: "Shape \<Rightarrow> bool" where
  \<comment> \<open>The invariants the specification gives the catalogue: every size parameter is
      strictly positive and a convex polytope has at least one point.\<close>
  "well_formed (SBox s) \<longleftrightarrow> 0 < vx (side s) \<and> 0 < vy (side s) \<and> 0 < vz (side s)"
| "well_formed (SSphere s) \<longleftrightarrow> 0 < sphere_radius s"
| "well_formed (SEllipsoid s) \<longleftrightarrow> 0 < vx (radii s) \<and> 0 < vy (radii s) \<and> 0 < vz (radii s)"
| "well_formed (SCapsule s) \<longleftrightarrow> 0 < capsule_radius s \<and> 0 < capsule_lz s"
| "well_formed (SCone s) \<longleftrightarrow> 0 < cone_radius s \<and> 0 < cone_lz s"
| "well_formed (SCylinder s) \<longleftrightarrow> 0 < cylinder_radius s \<and> 0 < cylinder_lz s"
| "well_formed (SConvex s) \<longleftrightarrow> points s \<noteq> []"
| "well_formed (STriangleP s) \<longleftrightarrow> True"
| "well_formed (SHalfspace s) \<longleftrightarrow> True"
| "well_formed (SPlane s) \<longleftrightarrow> True"

section \<open>Bounding volumes\<close>

text \<open>
  The members \<^verbatim>\<open>min_\<close> and \<^verbatim>\<open>max_\<close> of \<^verbatim>\<open>AABB\<close> are the fields \<open>aabb_min\<close> and
  \<open>aabb_max\<close>; the member \<^verbatim>\<open>l[2]\<close> of \<^verbatim>\<open>RSS\<close> is the pair of fields \<open>rss_l0\<close>,
  \<open>rss_l1\<close>.
\<close>

record AABB =
  aabb_min :: Vector3d
  aabb_max :: Vector3d

record OBB =
  axis :: Matrix3d
  To :: Vector3d
  extent :: Vector3d

record RSS =
  rss_axis :: Matrix3d
  Tr :: Vector3d
  rss_l0 :: real
  rss_l1 :: real
  rss_r :: real

record OBBRSS =
  obbrss_obb :: OBB
  obbrss_rss :: RSS

record kIOS_Sphere =
  sph_o :: Vector3d
  sph_r :: real

record kIOS =
  spheres :: "kIOS_Sphere list"
  num_spheres :: nat
  kios_obb :: OBB

type_synonym KDOP = "real list"

definition vec_min :: "Vector3d \<Rightarrow> Vector3d \<Rightarrow> Vector3d" where
  "vec_min a b = Vector3d (min (vx a) (vx b)) (min (vy a) (vy b)) (min (vz a) (vz b))"

definition vec_max :: "Vector3d \<Rightarrow> Vector3d \<Rightarrow> Vector3d" where
  "vec_max a b = Vector3d (max (vx a) (vx b)) (max (vy a) (vy b)) (max (vz a) (vz b))"

definition AABB_default :: AABB where
  \<comment> \<open>Modelled from the spec: the default constructor of \<^verbatim>\<open>AABB\<close>, declared in a
      header. It is the empty box from which minima and maxima are accumulated.\<close>
  "AABB_default = \<lparr> aabb_min = vec_constant FCL_REAL_max, aabb_max = vec_constant (- FCL_REAL_max) \<rparr>"

definition AABB_add_point :: "AABB \<Rightarrow> Vector3d \<Rightarrow> AABB" where
  \<comment> \<open>Modelled from the spec: \<^verbatim>\<open>AABB::operator+=(const Vector3d&)\<close>, declared in a
      header: "accumulate min/max over all transformed points".\<close>
  "AABB_add_point bv p = \<lparr> aabb_min = vec_min (aabb_min bv) p, aabb_max = vec_max (aabb_max bv) p \<rparr>"

definition AABB_of3 :: "Vector3d \<Rightarrow> Vector3d \<Rightarrow> Vector3d \<Rightarrow> AABB" where
  \<comment> \<open>Modelled from the spec: the three-point constructor of \<^verbatim>\<open>AABB\<close>, declared in
      a header: "min/max over the 3 transformed vertices".\<close>
  "AABB_of3 a b c =
     \<lparr> aabb_min = vec_min (vec_min a b) c, aabb_max = vec_max (vec_max a b) c \<rparr>"

definition AABB_center :: "AABB \<Rightarrow> Vector3d" where
  \<comment> \<open>Modelled from the spec: \<^verbatim>\<open>AABB::center()\<close>, declared in a header:
      the midpoint of the two corners.\<close>
  "AABB_center bv = vec_scale (vec_add (aabb_min bv) (aabb_max bv)) (1 / 2)"

definition aabb_ordered :: "AABB \<Rightarrow> bool" where
  \<comment> \<open>The invariant \<open>min \<le> max\<close>, componentwise.\<close>
  "aabb_ordered bv \<longleftrightarrow>
     vx (aabb_min bv) \<le> vx (aabb_max bv) \<and> vy (aabb_min bv) \<le> vy (aabb_max bv) \<and> vz (aabb_min bv) \<le> vz (aabb_max bv)"

section \<open>The vertex sampler\<close>

definition getBoundVertices_Box :: "Box \<Rightarrow> Transform3d \<Rightarrow> Vector3d list" where
  "getBoundVertices_Box box tf =
     (let a = vx (side box) / 2;
          b = vy (side box) / 2;
          c = vz (side box) / 2
      in [ tf_apply tf (Vector3d a b c),
           tf_apply tf (Vector3d a b (- c)),
           tf_apply tf (Vector3d a (- b) c),
           tf_apply tf (Vector3d a (- b) (- c)),
           tf_apply tf (Vector3d (- a) b c),
           tf_apply tf (Vector3d (- a) b (- c)),
           tf_apply tf (Vector3d (- a) (- b) c),
           tf_apply tf (Vector3d (- a) (- b) (- c)) ])"

definition getBoundVertices_Sphere :: "Sphere \<Rightarrow> Transform3d \<Rightarrow> Vector3d list" where
  \<comment> \<open>"we use icosahedron to bound the sphere"\<close>
  "getBoundVertices_Sphere sphere tf =
     (let m = (1 + sqrt 5) / 2;
          edge_size = sphere_radius sphere * 6 / (sqrt 27 + sqrt 15);
          a = edge_size;
          b = m * edge_size
      in [ tf_apply tf (Vector3d 0 a b),
           tf_apply tf (Vector3d 0 (- a) b),
           tf_apply tf (Vector3d 0 a (- b)),
           tf_apply tf (Vector3d 0 (- a) (- b)),
           tf_apply tf (Vector3d a b 0),
           tf_apply tf (Vector3d (- a) b 0),
           tf_apply tf (Vector3d a (- b) 0),
           tf_apply tf (Vector3d (- a) (- b) 0),
           tf_apply tf (Vector3d b 0 a),
           tf_apply tf (Vector3d b 0 (- a)),
           tf_apply tf (Vector3d (- b) 0 a),
           tf_apply tf (Vector3d (- b) 0 (- a)) ])"

definition getBoundVertices_Ellipsoid :: "Ellipsoid \<Rightarrow> Transform3d \<Rightarrow> Vector3d list" where
  \<comment> \<open>"we use scaled icosahedron to bound the ellipsoid"\<close>
  "getBoundVertices_Ellipsoid ellipsoid tf =
     (let phi = (1 + sqrt 5) / 2;
          a = sqrt 3 / (phi * phi);
          b = phi * a;
          A = vx (radii ellipsoid);
          B = vy (radii ellipsoid);
          C = vz (radii ellipsoid);
          Aa = A * a;
          Ab = A * b;
          Ba = B * a;
          Bb = B * b;
          Ca = C * a;
          Cb = C * b
      in [ tf_apply tf (Vector3d 0 Ba Cb),
           tf_apply tf (Vector3d 0 (- Ba) Cb),
           tf_apply tf (Vector3d 0 Ba (- Cb)),
           tf_apply tf (Vector3d 0 (- Ba) (- Cb)),
           tf_apply tf (Vector3d Aa Bb 0),
           tf_apply tf (Vector3d (- Aa) Bb 0),
           tf_apply tf (Vector3d Aa (- Bb) 0),
           tf_apply tf (Vector3d (- Aa) (- Bb) 0),
           tf_apply tf (Vector3d Ab 0 Ca),
           tf_apply tf (Vector3d Ab 0 (- Ca)),
           tf_apply tf (Vector3d (- Ab) 0 Ca),
           tf_apply tf (Vector3d (- Ab) 0 (- Ca)) ])"

definition getBoundVertices_Capsule :: "Capsule \<Rightarrow> Transform3d \<Rightarrow> Vector3d list" where
  "getBoundVertices_Capsule capsule tf =
     (let m = (1 + sqrt 5) / 2;
          hl = capsule_lz capsule * (1 / 2);
          edge_size = capsule_radius capsule * 6 / (sqrt 27 + sqrt 15);
          a = edge_size;
          b = m * edge_size;
          r2 = capsule_radius capsule * 2 / sqrt 3;
          c = (1 / 2) * r2;
          d = capsule_radius capsule
      in [ tf_apply tf (Vector3d 0 a (b + hl)),
           tf_apply tf (Vector3d 0 (- a) (b + hl)),
           tf_apply tf (Vector3d 0 a (- b + hl)),
           tf_apply tf (Vector3d 0 (- a) (- b + hl)),
           tf_apply tf (Vector3d a b hl),
           tf_apply tf (Vector3d (- a) b hl),
           tf_apply tf (Vector3d a (- b) hl),
           tf_apply tf (Vector3d (- a) (- b) hl),
           tf_apply tf (Vector3d b 0 (a + hl)),
           tf_apply tf (Vector3d b 0 (- a + hl)),
           tf_apply tf (Vector3d (- b) 0 (a + hl)),
           tf_apply tf (Vector3d (- b) 0 (- a + hl)),
           tf_apply tf (Vector3d 0 a (b - hl)),
           tf_apply tf (Vector3d 0 (- a) (b - hl)),
           tf_apply tf (Vector3d 0 a (- b - hl)),
           tf_apply tf (Vector3d 0 (- a) (- b - hl)),
           tf_apply tf (Vector3d a b (- hl)),
           tf_apply tf (Vector3d (- a) b (- hl)),
           tf_apply tf (Vector3d a (- b) (- hl)),
           tf_apply tf (Vector3d (- a) (- b) (- hl)),
           tf_apply tf (Vector3d b 0 (a - hl)),
           tf_apply tf (Vector3d b 0 (- a - hl)),
           tf_apply tf (Vector3d (- b) 0 (a - hl)),
           tf_apply tf (Vector3d (- b) 0 (- a - hl)),
           tf_apply tf (Vector3d r2 0 hl),
           tf_apply tf (Vector3d c d hl),
           tf_apply tf (Vector3d (- c) d hl),
           tf_apply tf (Vector3d (- r2) 0 hl),
           tf_apply tf (Vector3d (- c) (- d) hl),
           tf_apply tf (Vector3d c (- d) hl),
           tf_apply tf (Vector3d r2 0 (- hl)),
           tf_apply tf (Vector3d c d (- hl)),
           tf_apply tf (Vector3d (- c) d (- hl)),
           tf_apply tf (Vector3d (- r2) 0 (- hl)),
           tf_apply tf (Vector3d (- c) (- d) (- hl)),
           tf_apply tf (Vector3d c (- d) (- hl)) ])"

definition getBoundVertices_Cone :: "Cone \<Rightarrow> Transform3d \<Rightarrow> Vector3d list" where
  "getBoundVertices_Cone cone tf =
     (let hl = cone_lz cone * (1 / 2);
          r2 = cone_radius cone * 2 / sqrt 3;
          a = (1 / 2) * r2;
          b = cone_radius cone
      in [ tf_apply tf (Vector3d r2 0 (- hl)),
           tf_apply tf (Vector3d a b (- hl)),
           tf_apply tf (Vector3d (- a) b (- hl)),
           tf_apply tf (Vector3d (- r2) 0 (- hl)),
           tf_apply tf (Vector3d (- a) (- b) (- hl)),
           tf_apply tf (Vector3d a (- b) (- hl)),
           tf_apply tf (Vector3d 0 0 hl) ])"

definition getBoundVertices_Cylinder :: "Cylinder \<Rightarrow> Transform3d \<Rightarrow> Vector3d list" where
  "getBoundVertices_Cylinder cylinder tf =
     (let hl = cylinder_lz cylinder * (1 / 2);
          r2 = cylinder_radius cylinder * 2 / sqrt 3;
          a = (1 / 2) * r2;
          b = cylinder_radius cylinder
      in [ tf_apply tf (Vector3d r2 0 (- hl)),
           tf_apply tf (Vector3d a b (- hl)),
           tf_apply tf (Vector3d (- a) b (- hl)),
           tf_apply tf (Vector3d (- r2) 0 (- hl)),
           tf_apply tf (Vector3d (- a) (- b) (- hl)),
           tf_apply tf (Vector3d a (- b) (- hl)),
           tf_apply tf (Vector3d r2 0 hl),
           tf_apply tf (Vector3d a b hl),
           tf_apply tf (Vector3d (- a) b hl),
           tf_apply tf (Vector3d (- r2) 0 hl),
           tf_apply tf (Vector3d (- a) (- b) hl),
           tf_apply tf (Vector3d a (- b) hl) ])"

definition getBoundVertices_Convex :: "Convex \<Rightarrow> Transform3d \<Rightarrow> Vector3d list" where
  \<comment> \<open>The loop \<^verbatim>\<open>result[i] = tf * convex.points[i]\<close> over all \<^verbatim>\<open>num_points\<close> points.\<close>
  "getBoundVertices_Convex convex tf = map (tf_apply tf) (points convex)"

definition getBoundVertices_TriangleP :: "TriangleP \<Rightarrow> Transform3d \<Rightarrow> Vector3d list" where
  "getBoundVertices_TriangleP triangle tf =
     [ tf_apply tf (tri_a triangle), tf_apply tf (tri_b triangle), tf_apply tf (tri_c triangle) ]"

fun getBoundVertices :: "Shape \<Rightarrow> Transform3d \<Rightarrow> Vector3d list option" where
  \<comment> \<open>The overloads of \<^verbatim>\<open>details::getBoundVertices\<close>, selected by the shape class. The
      source has no overload for a half-space or a plane.\<close>
  "getBoundVertices (SBox s) tf = Some (getBoundVertices_Box s tf)"
| "getBoundVertices (SSphere s) tf = Some (getBoundVertices_Sphere s tf)"
| "getBoundVertices (SEllipsoid s) tf = Some (getBoundVertices_Ellipsoid s tf)"
| "getBoundVertices (SCapsule s) tf = Some (getBoundVertices_Capsule s tf)"
| "getBoundVertices (SCone s) tf = Some (getBoundVertices_Cone s tf)"
| "getBoundVertices (SCylinder s) tf = Some (getBoundVertices_Cylinder s tf)"
| "getBoundVertices (SConvex s) tf = Some (getBoundVertices_Convex s tf)"
| "getBoundVertices (STriangleP s) tf = Some (getBoundVertices_TriangleP s tf)"
| "getBoundVertices (SHalfspace s) tf = None"
| "getBoundVertices (SPlane s) tf = None"


definition aabb_within :: "real \<Rightarrow> AABB \<Rightarrow> AABB \<Rightarrow> bool" where
  \<comment> \<open>Two boxes agree within the tolerance \<open>eps\<close> on each of their six bounds.\<close>
  "aabb_within eps u w \<longleftrightarrow>
     \<bar>vx (aabb_min u) - vx (aabb_min w)\<bar> \<le> eps \<and> \<bar>vy (aabb_min u) - vy (aabb_min w)\<bar> \<le> eps
   \<and> \<bar>vz (aabb_min u) - vz (aabb_min w)\<bar> \<le> eps \<and> \<bar>vx (aabb_max u) - vx (aabb_max w)\<bar> \<le> eps
   \<and> \<bar>vy (aabb_max u) - vy (aabb_max w)\<bar> \<le> eps \<and> \<bar>vz (aabb_max u) - vz (aabb_max w)\<bar> \<le> eps"


section \<open>The implicit-surface transform\<close>

definition transform_Halfspace :: "Halfspace \<Rightarrow> Transform3d \<Rightarrow> Halfspace" where
  "transform_Halfspace a tf =
     (let n = mat_vec (linear_part tf) (hs_n a);
          d = hs_d a + dot n (translation tf)
      in \<lparr> hs_n = n, hs_d = d \<rparr>)"

definition transform_Plane :: "Plane \<Rightarrow> Transform3d \<Rightarrow> Plane" where
  "transform_Plane a tf =
     (let n = mat_vec (linear_part tf) (pl_n a);
          d = pl_d a + dot n (translation tf)
      in \<lparr> pl_n = n, pl_d = d \<rparr>)"

section \<open>The bound computer: axis-aligned boxes\<close>

definition aabb_around :: "Vector3d \<Rightarrow> Vector3d \<Rightarrow> AABB" where
  \<comment> \<open>\<^verbatim>\<open>bv.aabb_max = T + v_delta; bv.aabb_min = T - v_delta;\<close>\<close>
  "aabb_around T v_delta = \<lparr> aabb_min = vec_sub T v_delta, aabb_max = vec_add T v_delta \<rparr>"

definition computeBV_AABB_Box :: "Box \<Rightarrow> Transform3d \<Rightarrow> AABB" where
  "computeBV_AABB_Box s tf =
     (let R = linear_part tf;
          T = translation tf;
          x_range = (1 / 2) * (\<bar>m00 R * vx (side s)\<bar> + \<bar>m01 R * vy (side s)\<bar> + \<bar>m02 R * vz (side s)\<bar>);
          y_range = (1 / 2) * (\<bar>m10 R * vx (side s)\<bar> + \<bar>m11 R * vy (side s)\<bar> + \<bar>m12 R * vz (side s)\<bar>);
          z_range = (1 / 2) * (\<bar>m20 R * vx (side s)\<bar> + \<bar>m21 R * vy (side s)\<bar> + \<bar>m22 R * vz (side s)\<bar>)
      in aabb_around T (Vector3d x_range y_range z_range))"

definition computeBV_AABB_Sphere :: "Sphere \<Rightarrow> Transform3d \<Rightarrow> AABB" where
  "computeBV_AABB_Sphere s tf =
     (let T = translation tf
      in aabb_around T (vec_constant (sphere_radius s)))"

definition computeBV_AABB_Ellipsoid :: "Ellipsoid \<Rightarrow> Transform3d \<Rightarrow> AABB" where
  "computeBV_AABB_Ellipsoid s tf =
     (let R = linear_part tf;
          T = translation tf;
          x_range = \<bar>m00 R * vx (radii s)\<bar> + \<bar>m01 R * vy (radii s)\<bar> + \<bar>m02 R * vz (radii s)\<bar>;
          y_range = \<bar>m10 R * vx (radii s)\<bar> + \<bar>m11 R * vy (radii s)\<bar> + \<bar>m12 R * vz (radii s)\<bar>;
          z_range = \<bar>m20 R * vx (radii s)\<bar> + \<bar>m21 R * vy (radii s)\<bar> + \<bar>m22 R * vz (radii s)\<bar>
      in aabb_around T (Vector3d x_range y_range z_range))"

definition computeBV_AABB_Capsule :: "Capsule \<Rightarrow> Transform3d \<Rightarrow> AABB" where
  "computeBV_AABB_Capsule s tf =
     (let R = linear_part tf;
          T = translation tf;
          x_range = (1 / 2) * \<bar>m02 R * capsule_lz s\<bar> + capsule_radius s;
          y_range = (1 / 2) * \<bar>m12 R * capsule_lz s\<bar> + capsule_radius s;
          z_range = (1 / 2) * \<bar>m22 R * capsule_lz s\<bar> + capsule_radius s
      in aabb_around T (Vector3d x_range y_range z_range))"

definition computeBV_AABB_Cone :: "Cone \<Rightarrow> Transform3d \<Rightarrow> AABB" where
  "computeBV_AABB_Cone s tf =
     (let R = linear_part tf;
          T = translation tf;
          x_range = \<bar>m00 R * cone_radius s\<bar> + \<bar>m01 R * cone_radius s\<bar> + (1 / 2) * \<bar>m02 R * cone_lz s\<bar>;
          y_range = \<bar>m10 R * cone_radius s\<bar> + \<bar>m11 R * cone_radius s\<bar> + (1 / 2) * \<bar>m12 R * cone_lz s\<bar>;
          z_range = \<bar>m20 R * cone_radius s\<bar> + \<bar>m21 R * cone_radius s\<bar> + (1 / 2) * \<bar>m22 R * cone_lz s\<bar>
      in aabb_around T (Vector3d x_range y_range z_range))"

definition computeBV_AABB_Cylinder :: "Cylinder \<Rightarrow> Transform3d \<Rightarrow> AABB" where
  "computeBV_AABB_Cylinder s tf =
     (let R = linear_part tf;
          T = translation tf;
          x_range = \<bar>m00 R * cylinder_radius s\<bar> + \<bar>m01 R * cylinder_radius s\<bar>
                      + (1 / 2) * \<bar>m02 R * cylinder_lz s\<bar>;
          y_range = \<bar>m10 R * cylinder_radius s\<bar> + \<bar>m11 R * cylinder_radius s\<bar>
                      + (1 / 2) * \<bar>m12 R * cylinder_lz s\<bar>;
          z_range = \<bar>m20 R * cylinder_radius s\<bar> + \<bar>m21 R * cylinder_radius s\<bar>
                      + (1 / 2) * \<bar>m22 R * cylinder_lz s\<bar>
      in aabb_around T (Vector3d x_range y_range z_range))"

fun convex_loop :: "Matrix3d \<Rightarrow> Vector3d \<Rightarrow> Vector3d list \<Rightarrow> AABB \<Rightarrow> AABB" where
  \<comment> \<open>The loop over \<^verbatim>\<open>s.points[i]\<close>, \<open>i\<close> from \<open>0\<close> to \<^verbatim>\<open>s.num_points - 1\<close>.\<close>
  "convex_loop R T [] bv = bv"
| "convex_loop R T (p # ps) bv =
     (let new_p = vec_add (mat_vec R p) T
      in convex_loop R T ps (AABB_add_point bv new_p))"

definition computeBV_AABB_Convex :: "Convex \<Rightarrow> Transform3d \<Rightarrow> AABB" where
  "computeBV_AABB_Convex s tf =
     (let R = linear_part tf;
          T = translation tf
      in convex_loop R T (points s) AABB_default)"

definition computeBV_AABB_TriangleP :: "TriangleP \<Rightarrow> Transform3d \<Rightarrow> AABB" where
  "computeBV_AABB_TriangleP s tf =
     AABB_of3 (tf_apply tf (tri_a s)) (tf_apply tf (tri_b s)) (tf_apply tf (tri_c s))"

definition set_x :: "Vector3d \<Rightarrow> real \<Rightarrow> Vector3d" where
  "set_x v c = Vector3d c (vy v) (vz v)"

definition set_y :: "Vector3d \<Rightarrow> real \<Rightarrow> Vector3d" where
  "set_y v c = Vector3d (vx v) c (vz v)"

definition set_z :: "Vector3d \<Rightarrow> real \<Rightarrow> Vector3d" where
  "set_z v c = Vector3d (vx v) (vy v) c"

definition computeBV_AABB_Halfspace :: "Halfspace \<Rightarrow> Transform3d \<Rightarrow> AABB" where
  "computeBV_AABB_Halfspace s tf =
     (let new_s = transform_Halfspace s tf;
          n = hs_n new_s;
          d = hs_d new_s;
          bv = \<lparr> aabb_min = vec_constant (- FCL_REAL_max), aabb_max = vec_constant FCL_REAL_max \<rparr>
      in if vy n = 0 \<and> vz n = 0 then
           (if vx n < 0 then bv\<lparr> aabb_min := set_x (aabb_min bv) (- d) \<rparr>
            else if vx n > 0 then bv\<lparr> aabb_max := set_x (aabb_max bv) d \<rparr>
            else bv)
         else if vx n = 0 \<and> vz n = 0 then
           (if vy n < 0 then bv\<lparr> aabb_min := set_y (aabb_min bv) (- d) \<rparr>
            else if vy n > 0 then bv\<lparr> aabb_max := set_y (aabb_max bv) d \<rparr>
            else bv)
         else if vx n = 0 \<and> vy n = 0 then
           (if vz n < 0 then bv\<lparr> aabb_min := set_z (aabb_min bv) (- d) \<rparr>
            else if vz n > 0 then bv\<lparr> aabb_max := set_z (aabb_max bv) d \<rparr>
            else bv)
         else bv)"

definition computeBV_AABB_Plane :: "Plane \<Rightarrow> Transform3d \<Rightarrow> AABB" where
  "computeBV_AABB_Plane s tf =
     (let new_s = transform_Plane s tf;
          n = pl_n new_s;
          d = pl_d new_s;
          bv = \<lparr> aabb_min = vec_constant (- FCL_REAL_max), aabb_max = vec_constant FCL_REAL_max \<rparr>
      in if vy n = 0 \<and> vz n = 0 then
           (if vx n < 0 then bv\<lparr> aabb_min := set_x (aabb_min bv) (- d), aabb_max := set_x (aabb_max bv) (- d) \<rparr>
            else if vx n > 0 then bv\<lparr> aabb_min := set_x (aabb_min bv) d, aabb_max := set_x (aabb_max bv) d \<rparr>
            else bv)
         else if vx n = 0 \<and> vz n = 0 then
           (if vy n < 0 then bv\<lparr> aabb_min := set_y (aabb_min bv) (- d), aabb_max := set_y (aabb_max bv) (- d) \<rparr>
            else if vy n > 0 then bv\<lparr> aabb_min := set_y (aabb_min bv) d, aabb_max := set_y (aabb_max bv) d \<rparr>
            else bv)
         else if vx n = 0 \<and> vy n = 0 then
           (if vz n < 0 then bv\<lparr> aabb_min := set_z (aabb_min bv) (- d), aabb_max := set_z (aabb_max bv) (- d) \<rparr>
            else if vz n > 0 then bv\<lparr> aabb_min := set_z (aabb_min bv) d, aabb_max := set_z (aabb_max bv) d \<rparr>
            else bv)
         else bv)"

fun computeBV_AABB :: "Shape \<Rightarrow> Transform3d \<Rightarrow> AABB" where
  \<comment> \<open>The template specialisations \<^verbatim>\<open>computeBV<AABB, S>\<close>, selected by the shape class.\<close>
  "computeBV_AABB (SBox s) tf = computeBV_AABB_Box s tf"
| "computeBV_AABB (SSphere s) tf = computeBV_AABB_Sphere s tf"
| "computeBV_AABB (SEllipsoid s) tf = computeBV_AABB_Ellipsoid s tf"
| "computeBV_AABB (SCapsule s) tf = computeBV_AABB_Capsule s tf"
| "computeBV_AABB (SCone s) tf = computeBV_AABB_Cone s tf"
| "computeBV_AABB (SCylinder s) tf = computeBV_AABB_Cylinder s tf"
| "computeBV_AABB (SConvex s) tf = computeBV_AABB_Convex s tf"
| "computeBV_AABB (STriangleP s) tf = computeBV_AABB_TriangleP s tf"
| "computeBV_AABB (SHalfspace s) tf = computeBV_AABB_Halfspace s tf"
| "computeBV_AABB (SPlane s) tf = computeBV_AABB_Plane s tf"

fun offset_in_range :: "Shape \<Rightarrow> Transform3d \<Rightarrow> bool" where
  \<comment> \<open>For a half-space whose transformed normal has exactly one component that is not
      zero, so that \<^verbatim>\<open>computeBV<AABB, Halfspace>\<close> stores the transformed offset \<open>d'\<close> (or
      \<open>- d'\<close>) in one bound: \<open>d'\<close> is not below \<open>- FCL_REAL_max\<close>. Every finite value of the
      source's number type is in this range; the reals of the model are not.\<close>
  "offset_in_range (SHalfspace s) tf \<longleftrightarrow>
     (let n = hs_n (transform_Halfspace s tf);
          d = hs_d (transform_Halfspace s tf)
      in if (vy n = 0 \<and> vz n = 0 \<and> vx n \<noteq> 0) \<or> (vx n = 0 \<and> vz n = 0 \<and> vy n \<noteq> 0)
            \<or> (vx n = 0 \<and> vy n = 0 \<and> vz n \<noteq> 0)
         then - FCL_REAL_max \<le> d else True)"
| "offset_in_range _ tf \<longleftrightarrow> True"

section \<open>The bound computer: oriented boxes\<close>

definition computeBV_OBB_Box :: "Box \<Rightarrow> Transform3d \<Rightarrow> OBB" where
  "computeBV_OBB_Box s tf =
     \<lparr> axis = linear_part tf, To = translation tf, extent = vec_scale (side s) (1 / 2) \<rparr>"

definition computeBV_OBB_Halfspace :: "Halfspace \<Rightarrow> Transform3d \<Rightarrow> OBB" where
  \<comment> \<open>"Half space can only have very rough OBB"\<close>
  "computeBV_OBB_Halfspace s tf =
     \<lparr> axis = mat_identity, To = Vector3d 0 0 0, extent = vec_constant FCL_REAL_max \<rparr>"

definition computeBV_OBB_Plane ::
  "(Matrix3d \<Rightarrow> Matrix3d) \<Rightarrow> Plane \<Rightarrow> Transform3d \<Rightarrow> OBB \<Rightarrow> OBB" where
  \<comment> \<open>\<^verbatim>\<open>generateCoordinateSystem\<close> is defined in a header and is the
      parameter \<open>gcs\<close>: the matrix it leaves in \<^verbatim>\<open>bv.axis\<close>, as a function of the matrix it
      finds there. The source writes column 0 of \<^verbatim>\<open>bv.axis\<close> only, so the other two
      columns that \<open>gcs\<close> receives are those of the incoming \<open>bv\<close>.\<close>
  "computeBV_OBB_Plane gcs s tf bv =
     (let n = mat_vec (linear_part tf) (pl_n s);
          p = vec_scale (pl_n s) (pl_d s)
      in \<lparr> axis = gcs (set_col0 (axis bv) n),
           To = tf_apply tf p,
           extent = Vector3d 0 FCL_REAL_max FCL_REAL_max \<rparr>)"

definition vec_cross :: "Vector3d \<Rightarrow> Vector3d \<Rightarrow> Vector3d" where
  "vec_cross a b = Vector3d
     (vy a * vz b - vz a * vy b)
     (vz a * vx b - vx a * vz b)
     (vx a * vy b - vy a * vx b)"

definition complete_basis :: "Matrix3d \<Rightarrow> Matrix3d" where
  \<comment> \<open>Modelled from the spec: \<^verbatim>\<open>generateCoordinateSystem\<close>, defined in a header: "orientation of those two axes is filled in by a canonical perpendicular-basis
      completion". Column 0 is kept, column 1 is a unit vector perpendicular to it and
      column 2 is their cross product.\<close>
  "complete_basis A =
     (let w = mat_col A 0;
          u = (if \<bar>vx w\<bar> \<ge> \<bar>vy w\<bar>
               then vec_scale (Vector3d (- vz w) 0 (vx w)) (1 / sqrt (vx w * vx w + vz w * vz w))
               else vec_scale (Vector3d 0 (vz w) (- vy w)) (1 / sqrt (vy w * vy w + vz w * vz w)));
          v = vec_cross w u
      in Matrix3d (vx w) (vx u) (vx v)
                  (vy w) (vy u) (vy v)
                  (vz w) (vz u) (vz v))"

section \<open>The bound computer: discrete oriented polytopes of half-spaces and planes\<close>

text \<open>
  A \<^verbatim>\<open>KDOP<16>\<close> holds 16 distances: entry \<open>i\<close> below \<open>D = 8\<close> is the lower bound along
  support direction \<open>i\<close>, entry \<open>D + i\<close> the upper bound along the same direction.
  \<^verbatim>\<open>bv.dist(i) = v\<close> is the list update \<open>dist[i := v]\<close>; every index the source writes is
  below the length of the array.
\<close>

definition kdop_unbounded :: "nat \<Rightarrow> KDOP" where
  \<comment> \<open>The two initialising loops: \<open>D\<close> lower bounds at \<open>-max\<close>, then \<open>D\<close> upper bounds at
      \<open>max\<close>.\<close>
  "kdop_unbounded D = replicate D (- FCL_REAL_max) @ replicate D FCL_REAL_max"

definition computeBV_KDOP16_Halfspace :: "Halfspace \<Rightarrow> Transform3d \<Rightarrow> KDOP" where
  "computeBV_KDOP16_Halfspace s tf =
     (let new_s = transform_Halfspace s tf;
          n = hs_n new_s;
          d = hs_d new_s;
          D = 8;
          dist = kdop_unbounded D
      in if vy n = 0 \<and> vz n = 0 then
           (if vx n > 0 then dist[D := d] else dist[0 := - d])
         else if vx n = 0 \<and> vz n = 0 then
           (if vy n > 0 then dist[D + 1 := d] else dist[1 := - d])
         else if vx n = 0 \<and> vy n = 0 then
           (if vz n > 0 then dist[D + 2 := d] else dist[2 := - d])
         else if vz n = 0 \<and> vx n = vy n then
           (if vx n > 0 then dist[D + 3 := vx n * d * 2] else dist[3 := vx n * d * 2])
         else if vy n = 0 \<and> vx n = vz n then
           (if vy n > 0 then dist[D + 4 := vx n * d * 2] else dist[4 := vx n * d * 2])
         else if vx n = 0 \<and> vy n = vz n then
           (if vy n > 0 then dist[D + 5 := vy n * d * 2] else dist[5 := vy n * d * 2])
         else if vz n = 0 \<and> vx n + vy n = 0 then
           (if vx n > 0 then dist[D + 6 := vx n * d * 2] else dist[6 := vx n * d * 2])
         else if vy n = 0 \<and> vx n + vz n = 0 then
           (if vx n > 0 then dist[D + 7 := vx n * d * 2] else dist[7 := vx n * d * 2])
         else dist)"

definition computeBV_KDOP16_Plane :: "Plane \<Rightarrow> Transform3d \<Rightarrow> KDOP" where
  \<comment> \<open>\<^verbatim>\<open>bv.dist(i) = bv.dist(j) = v\<close> writes entry \<open>j\<close>, then entry \<open>i\<close>.\<close>
  "computeBV_KDOP16_Plane s tf =
     (let new_s = transform_Plane s tf;
          n = pl_n new_s;
          d = pl_d new_s;
          D = 8;
          dist = kdop_unbounded D
      in if vy n = 0 \<and> vz n = 0 then
           (if vx n > 0 then dist[D := d, 0 := d] else dist[D := - d, 0 := - d])
         else if vx n = 0 \<and> vz n = 0 then
           (if vy n > 0 then dist[D + 1 := d, 1 := d] else dist[D + 1 := - d, 1 := - d])
         else if vx n = 0 \<and> vy n = 0 then
           (if vz n > 0 then dist[D + 2 := d, 2 := d] else dist[D + 2 := - d, 2 := - d])
         else if vz n = 0 \<and> vx n = vy n then
           dist[D + 3 := vx n * d * 2, 3 := vx n * d * 2]
         else if vy n = 0 \<and> vx n = vz n then
           dist[D + 4 := vx n * d * 2, 4 := vx n * d * 2]
         else if vx n = 0 \<and> vy n = vz n then
           dist[D + 5 := vy n * d * 2, 6 := vy n * d * 2]
         else if vz n = 0 \<and> vx n + vy n = 0 then
           dist[D + 6 := vx n * d * 2, 6 := vx n * d * 2]
         else if vy n = 0 \<and> vx n + vz n = 0 then
           dist[D + 7 := vx n * d * 2, 7 := vx n * d * 2]
         else dist)"

definition computeBV_KDOP18_Plane :: "Plane \<Rightarrow> Transform3d \<Rightarrow> KDOP" where
  \<comment> \<open>The sibling specialisation for 18 distances, \<open>D = 9\<close>.\<close>
  "computeBV_KDOP18_Plane s tf =
     (let new_s = transform_Plane s tf;
          n = pl_n new_s;
          d = pl_d new_s;
          D = 9;
          dist = kdop_unbounded D
      in if vy n = 0 \<and> vz n = 0 then
           (if vx n > 0 then dist[D := d, 0 := d] else dist[D := - d, 0 := - d])
         else if vx n = 0 \<and> vz n = 0 then
           (if vy n > 0 then dist[D + 1 := d, 1 := d] else dist[D + 1 := - d, 1 := - d])
         else if vx n = 0 \<and> vy n = 0 then
           (if vz n > 0 then dist[D + 2 := d, 2 := d] else dist[D + 2 := - d, 2 := - d])
         else if vz n = 0 \<and> vx n = vy n then
           dist[D + 3 := vx n * d * 2, 3 := vx n * d * 2]
         else if vy n = 0 \<and> vx n = vz n then
           dist[D + 4 := vx n * d * 2, 4 := vx n * d * 2]
         else if vx n = 0 \<and> vy n = vz n then
           dist[D + 5 := vy n * d * 2, 5 := vy n * d * 2]
         else if vz n = 0 \<and> vx n + vy n = 0 then
           dist[D + 6 := vx n * d * 2, 6 := vx n * d * 2]
         else if vy n = 0 \<and> vx n + vz n = 0 then
           dist[D + 7 := vx n * d * 2, 7 := vx n * d * 2]
         else if vx n = 0 \<and> vy n + vz n = 0 then
           dist[D + 8 := vy n * d * 2, 8 := vy n * d * 2]
         else dist)"

section \<open>The box reconstructor\<close>

text \<open>
  \<^verbatim>\<open>constructBox\<close> writes a box and a transform; the model returns the pair. The members
  \<^verbatim>\<open>width()\<close>, \<^verbatim>\<open>height()\<close>, \<^verbatim>\<open>depth()\<close> of \<^verbatim>\<open>RSS\<close> and of \<^verbatim>\<open>KDOP<N>\<close>, and
  \<^verbatim>\<open>center()\<close> of \<^verbatim>\<open>KDOP<N>\<close>, are defined in a header: the values
  they return on \<open>bv\<close> are the parameters \<open>w\<close>, \<open>h\<close>, \<open>dp\<close> and \<open>c\<close>. The three
  specialisations for \<^verbatim>\<open>KDOP<16>\<close>, \<^verbatim>\<open>KDOP<18>\<close> and \<^verbatim>\<open>KDOP<24>\<close> have the same text
  and share one definition.
\<close>

definition constructBox_AABB :: "AABB \<Rightarrow> Box \<times> Transform3d" where
  "constructBox_AABB bv =
     (\<lparr> side = vec_sub (aabb_max bv) (aabb_min bv) \<rparr>,
      \<lparr> linear_part = mat_identity, translation = AABB_center bv \<rparr>)"

definition constructBox_OBB :: "OBB \<Rightarrow> Box \<times> Transform3d" where
  "constructBox_OBB bv =
     (\<lparr> side = vec_scale (extent bv) 2 \<rparr>,
      \<lparr> linear_part = axis bv, translation = To bv \<rparr>)"

definition constructBox_OBBRSS :: "OBBRSS \<Rightarrow> Box \<times> Transform3d" where
  "constructBox_OBBRSS bv =
     (\<lparr> side = vec_scale (extent (obbrss_obb bv)) 2 \<rparr>,
      \<lparr> linear_part = axis (obbrss_obb bv), translation = To (obbrss_obb bv) \<rparr>)"

definition constructBox_kIOS :: "kIOS \<Rightarrow> Box \<times> Transform3d" where
  "constructBox_kIOS bv =
     (\<lparr> side = vec_scale (extent (kios_obb bv)) 2 \<rparr>,
      \<lparr> linear_part = axis (kios_obb bv), translation = To (kios_obb bv) \<rparr>)"

definition constructBox_RSS :: "real \<Rightarrow> real \<Rightarrow> real \<Rightarrow> RSS \<Rightarrow> Box \<times> Transform3d" where
  "constructBox_RSS w h dp bv =
     (\<lparr> side = Vector3d w h dp \<rparr>,
      \<lparr> linear_part = rss_axis bv, translation = Tr bv \<rparr>)"

definition constructBox_KDOP ::
  "real \<Rightarrow> real \<Rightarrow> real \<Rightarrow> Vector3d \<Rightarrow> KDOP \<Rightarrow> Box \<times> Transform3d" where
  "constructBox_KDOP w h dp c bv =
     (\<lparr> side = Vector3d w h dp \<rparr>,
      \<lparr> linear_part = mat_identity, translation = c \<rparr>)"

definition constructBox_AABB_tf :: "AABB \<Rightarrow> Transform3d \<Rightarrow> Box \<times> Transform3d" where
  "constructBox_AABB_tf bv tf_bv =
     (\<lparr> side = vec_sub (aabb_max bv) (aabb_min bv) \<rparr>,
      tf_translate tf_bv (AABB_center bv))"

definition constructBox_OBB_tf :: "OBB \<Rightarrow> Transform3d \<Rightarrow> Box \<times> Transform3d" where
  "constructBox_OBB_tf bv tf_bv =
     (\<lparr> side = vec_scale (extent bv) 2 \<rparr>,
      \<lparr> linear_part = axis bv, translation = To bv \<rparr>)"

definition constructBox_OBBRSS_tf :: "OBBRSS \<Rightarrow> Transform3d \<Rightarrow> Box \<times> Transform3d" where
  "constructBox_OBBRSS_tf bv tf_bv =
     (\<lparr> side = vec_scale (extent (obbrss_obb bv)) 2 \<rparr>,
      tf_compose tf_bv \<lparr> linear_part = axis (obbrss_obb bv), translation = To (obbrss_obb bv) \<rparr>)"

definition constructBox_kIOS_tf :: "kIOS \<Rightarrow> Transform3d \<Rightarrow> Box \<times> Transform3d" where
  "constructBox_kIOS_tf bv tf_bv =
     (\<lparr> side = vec_scale (extent (kios_obb bv)) 2 \<rparr>,
      tf_compose tf_bv \<lparr> linear_part = axis (kios_obb bv), translation = To (kios_obb bv) \<rparr>)"

definition constructBox_RSS_tf ::
  "real \<Rightarrow> real \<Rightarrow> real \<Rightarrow> RSS \<Rightarrow> Transform3d \<Rightarrow> Box \<times> Transform3d" where
  "constructBox_RSS_tf w h dp bv tf_bv =
     (\<lparr> side = Vector3d w h dp \<rparr>,
      tf_compose tf_bv \<lparr> linear_part = rss_axis bv, translation = Tr bv \<rparr>)"

definition constructBox_KDOP_tf ::
  "real \<Rightarrow> real \<Rightarrow> real \<Rightarrow> Vector3d \<Rightarrow> KDOP \<Rightarrow> Transform3d \<Rightarrow> Box \<times> Transform3d" where
  "constructBox_KDOP_tf w h dp c bv tf_bv =
     (\<lparr> side = Vector3d w h dp \<rparr>, tf_translate tf_bv c)"

section \<open>Predicates of the specification\<close>

definition aabb_size :: "AABB \<Rightarrow> Vector3d" where
  \<comment> \<open>The extents of a box along the three world axes.\<close>
  "aabb_size bv = vec_sub (aabb_max bv) (aabb_min bv)"

definition obb_flat_along :: "OBB \<Rightarrow> Vector3d \<Rightarrow> bool" where
  \<comment> \<open>The degenerate oriented box of the specification: one axis is the vector \<open>n\<close> and
      carries zero extent, the other two carry the unbounded extent.\<close>
  "obb_flat_along bv n \<longleftrightarrow>
     (mat_col (axis bv) 0 = n \<and> extent bv = Vector3d 0 FCL_REAL_max FCL_REAL_max)
   \<or> (mat_col (axis bv) 1 = n \<and> extent bv = Vector3d FCL_REAL_max 0 FCL_REAL_max)
   \<or> (mat_col (axis bv) 2 = n \<and> extent bv = Vector3d FCL_REAL_max FCL_REAL_max 0)"

definition aligned16 :: "Vector3d \<Rightarrow> bool" where
  \<comment> \<open>The normal passes one of the eight alignment tests of the \<^verbatim>\<open>KDOP<16>\<close> routines.\<close>
  "aligned16 n \<longleftrightarrow>
     (vy n = 0 \<and> vz n = 0) \<or> (vx n = 0 \<and> vz n = 0) \<or> (vx n = 0 \<and> vy n = 0)
   \<or> (vz n = 0 \<and> vx n = vy n) \<or> (vy n = 0 \<and> vx n = vz n) \<or> (vx n = 0 \<and> vy n = vz n)
   \<or> (vz n = 0 \<and> vx n + vy n = 0) \<or> (vy n = 0 \<and> vx n + vz n = 0)"

definition aabb_within_rel :: "real \<Rightarrow> AABB \<Rightarrow> AABB \<Rightarrow> bool" where
  \<comment> \<open>Each of the six bounds of the box \<open>w\<close> differs from the same bound of the box \<open>u\<close>
      by at most the fraction \<open>k\<close> of the half-range of \<open>u\<close> along that axis.\<close>
  "aabb_within_rel k u w \<longleftrightarrow>
     \<bar>vx (aabb_max u) - vx (aabb_max w)\<bar> \<le> k * ((vx (aabb_max u) - vx (aabb_min u)) / 2)
   \<and> \<bar>vx (aabb_min u) - vx (aabb_min w)\<bar> \<le> k * ((vx (aabb_max u) - vx (aabb_min u)) / 2)
   \<and> \<bar>vy (aabb_max u) - vy (aabb_max w)\<bar> \<le> k * ((vy (aabb_max u) - vy (aabb_min u)) / 2)
   \<and> \<bar>vy (aabb_min u) - vy (aabb_min w)\<bar> \<le> k * ((vy (aabb_max u) - vy (aabb_min u)) / 2)
   \<and> \<bar>vz (aabb_max u) - vz (aabb_max w)\<bar> \<le> k * ((vz (aabb_max u) - vz (aabb_min u)) / 2)
   \<and> \<bar>vz (aabb_min u) - vz (aabb_min w)\<bar> \<le> k * ((vz (aabb_max u) - vz (aabb_min u)) / 2)"

fun sample_tolerance :: "Shape \<Rightarrow> real" where
  \<comment> \<open>The fraction of the half-range of the dedicated box within which the box of the
      sampled vertices agrees with it, by shape class.\<close>
  "sample_tolerance (SBox s) = 0"
| "sample_tolerance (SSphere s) = 26 / 100"
| "sample_tolerance (SEllipsoid s) = 43 / 100"
| "sample_tolerance (SCapsule s) = 26 / 100"
| "sample_tolerance (SCone s) = 74 / 100"
| "sample_tolerance (SCylinder s) = 27 / 100"
| "sample_tolerance (SConvex s) = 0"
| "sample_tolerance (STriangleP s) = 0"
| "sample_tolerance (SHalfspace s) = 0"
| "sample_tolerance (SPlane s) = 0"

fun circumscribed :: "Shape \<Rightarrow> bool" where
  \<comment> \<open>The shape classes whose sampled vertices enclose the dedicated box.\<close>
  "circumscribed (SBox s) \<longleftrightarrow> True"
| "circumscribed (SSphere s) \<longleftrightarrow> True"
| "circumscribed (SCapsule s) \<longleftrightarrow> True"
| "circumscribed (SConvex s) \<longleftrightarrow> True"
| "circumscribed (STriangleP s) \<longleftrightarrow> True"
| "circumscribed _ \<longleftrightarrow> False"

definition vec_finite :: "Vector3d \<Rightarrow> bool" where
  \<comment> \<open>Every component is in the range of the finite values of \<^verbatim>\<open>FCL_REAL\<close>.\<close>
  "vec_finite v \<longleftrightarrow>
     \<bar>vx v\<bar> \<le> FCL_REAL_max \<and> \<bar>vy v\<bar> \<le> FCL_REAL_max \<and> \<bar>vz v\<bar> \<le> FCL_REAL_max"

fun points_finite :: "Shape \<Rightarrow> Transform3d \<Rightarrow> bool" where
  \<comment> \<open>The transformed points of a convex polytope are finite values of \<^verbatim>\<open>FCL_REAL\<close>.
      Every finite value of the source's number type is in this range; the reals of the
      model are not.\<close>
  "points_finite (SConvex s) tf \<longleftrightarrow> list_all (\<lambda>p. vec_finite (tf_apply tf p)) (points s)"
| "points_finite _ tf \<longleftrightarrow> True"

section \<open>Auxiliary notions for the proofs\<close>

definition mat_row :: "Matrix3d \<Rightarrow> nat \<Rightarrow> Vector3d" where
  "mat_row R i = Vector3d (mat_at R i 0) (mat_at R i 1) (mat_at R i 2)"

definition vec_neg :: "Vector3d \<Rightarrow> Vector3d" where
  "vec_neg v = Vector3d (- vx v) (- vy v) (- vz v)"

definition reach :: "Vector3d list \<Rightarrow> Vector3d \<Rightarrow> real \<Rightarrow> real \<Rightarrow> bool" where
  \<comment> \<open>Along the direction \<open>u\<close> some vertex of the list reaches \<open>lo\<close> and none passes \<open>hi\<close>.\<close>
  "reach V u lo hi \<longleftrightarrow> (\<exists>v \<in> set V. lo \<le> dot u v) \<and> (\<forall>v \<in> set V. dot u v \<le> hi)"

definition shift_z :: "real \<Rightarrow> Vector3d \<Rightarrow> Vector3d" where
  "shift_z z q = Vector3d (vx q) (vy q) (vz q + z)"

definition hexagon :: "real \<Rightarrow> real \<Rightarrow> real \<Rightarrow> Vector3d list" where
  \<comment> \<open>The six local vertices of the hexagons of the capsule, the cone and the cylinder, in
      the plane \<open>z = 0\<close> and in the order of the source.\<close>
  "hexagon r2 a b =
     [ Vector3d r2 0 0, Vector3d a b 0, Vector3d (- a) b 0,
       Vector3d (- r2) 0 0, Vector3d (- a) (- b) 0, Vector3d a (- b) 0 ]"

definition hex_r2 :: "real \<Rightarrow> real" where
  \<comment> \<open>\<^verbatim>\<open>r2\<close> of the capsule, cone and cylinder samplers for the radius \<open>r\<close>.\<close>
  "hex_r2 r = r * 2 / sqrt 3"

definition icosahedron6 :: "real \<Rightarrow> real \<Rightarrow> real \<Rightarrow> real \<Rightarrow> real \<Rightarrow> real \<Rightarrow> Vector3d list" where
  \<comment> \<open>The twelve local vertices that \<open>getBoundVertices_Ellipsoid\<close> transforms.\<close>
  "icosahedron6 Aa Ab Ba Bb Ca Cb =
     [ Vector3d 0 Ba Cb, Vector3d 0 (- Ba) Cb, Vector3d 0 Ba (- Cb), Vector3d 0 (- Ba) (- Cb),
       Vector3d Aa Bb 0, Vector3d (- Aa) Bb 0, Vector3d Aa (- Bb) 0, Vector3d (- Aa) (- Bb) 0,
       Vector3d Ab 0 Ca, Vector3d Ab 0 (- Ca), Vector3d (- Ab) 0 Ca, Vector3d (- Ab) 0 (- Ca) ]"

definition ell_a :: real where
  \<comment> \<open>\<^verbatim>\<open>a\<close> of \<open>getBoundVertices_Ellipsoid\<close>.\<close>
  "ell_a = sqrt 3 / ((1 + sqrt 5) / 2 * ((1 + sqrt 5) / 2))"

definition ell_b :: real where
  \<comment> \<open>\<^verbatim>\<open>b\<close> of \<open>getBoundVertices_Ellipsoid\<close>.\<close>
  "ell_b = (1 + sqrt 5) / 2 * ell_a"






section \<open>Helper facts\<close>

lemma FCL_REAL_max_pos: "0 < FCL_REAL_max"
  by (simp add: FCL_REAL_max_def)

lemma FCL_REAL_max_ge_1: "1 \<le> FCL_REAL_max"
  by (simp add: FCL_REAL_max_def)

lemma dot_mat_vec:
  "dot (mat_vec R n) (mat_vec R p) = dot n (mat_vec (mat_mul (mat_transpose R) R) p)"
  by (simp add: dot_def mat_vec_def mat_mul_def mat_transpose_def algebra_simps)

lemma mat_vec_identity: "mat_vec mat_identity v = v"
  by (simp add: mat_vec_def mat_identity_def)

lemma dot_rigid:
  assumes "rigid tf"
  shows "dot (mat_vec (linear_part tf) n) (mat_vec (linear_part tf) p) = dot n p"
  using assms by (simp add: dot_mat_vec rigid_def mat_vec_identity)

lemma dot_vec_add: "dot n (vec_add a b) = dot n a + dot n b"
  by (simp add: dot_def vec_add_def algebra_simps)

lemma rigid_rot_z90: "rigid \<lparr> linear_part = rot_z90, translation = t \<rparr>"
  by (simp add: rigid_def rot_z90_def mat_mul_def mat_transpose_def mat_identity_def mat_det_def)

lemma mat_mul_identity_right: "mat_mul A mat_identity = A"
  by (cases A) (simp add: mat_mul_def mat_identity_def)

lemma tf_compose_pure_translation:
  "tf_compose tf_bv \<lparr> linear_part = mat_identity, translation = c \<rparr> = tf_translate tf_bv c"
  by (simp add: tf_compose_def tf_translate_def mat_mul_identity_right)

lemma mat_col0_set_col0: "mat_col (set_col0 A n) 0 = n"
  by (cases n) (simp add: mat_col_def set_col0_def mat_at_def vec_at_def)

lemma complete_basis_col0: "mat_col (complete_basis A) 0 = mat_col A 0"
  by (simp add: complete_basis_def Let_def mat_col_def mat_at_def vec_at_def)

lemma sum_lessThan_3: "(\<Sum>j<3. f j) = f 0 + f 1 + f (2::nat)"
  by (simp add: numeral_3_eq_3 numeral_2_eq_2 lessThan_Suc add.commute add.left_commute)

lemma less_3_cases: "i < (3::nat) \<Longrightarrow> i = 0 \<or> i = 1 \<or> i = 2"
  by arith

section \<open>C1: discrete oriented polytopes of half-spaces and planes\<close>

text \<open>
  Claim C1 says that \<^verbatim>\<open>computeBV\<close> leaves every distance of the \<^verbatim>\<open>KDOP\<close> of a half-space
  or a plane at the unbounded sentinel, except that one direction slot is tightened when
  the transformed normal is aligned with one of the fixed support directions. The source
  breaks this for a plane whose normal is aligned with support direction 5, the diagonal
  \<open>(0, 1, 1)\<close>: \<^verbatim>\<open>computeBV<KDOP<16>, Plane>\<close> writes \<^verbatim>\<open>bv.dist(6) = bv.dist(D + 5)\<close>, so the
  lower bound of direction 6 and the upper bound of direction 5 are tightened and the lower
  bound of direction 5 stays unbounded. The specialisation for \<^verbatim>\<open>KDOP<18>\<close> writes
  \<^verbatim>\<open>bv.dist(5) = bv.dist(D + 5)\<close> on the same input. The theorem evaluates both at the unit
  normal \<open>(0, \<surd>2/2, \<surd>2/2)\<close>, offset 1 and the identity transform.
\<close>

theorem kdop16_plane_diagonal_yz:
  "computeBV_KDOP16_Plane \<lparr> pl_n = Vector3d 0 (sqrt 2 / 2) (sqrt 2 / 2), pl_d = 1 \<rparr> tf_identity
     = [- FCL_REAL_max, - FCL_REAL_max, - FCL_REAL_max, - FCL_REAL_max,
        - FCL_REAL_max, - FCL_REAL_max, sqrt 2, - FCL_REAL_max,
        FCL_REAL_max, FCL_REAL_max, FCL_REAL_max, FCL_REAL_max,
        FCL_REAL_max, sqrt 2, FCL_REAL_max, FCL_REAL_max]
   \<and> computeBV_KDOP18_Plane \<lparr> pl_n = Vector3d 0 (sqrt 2 / 2) (sqrt 2 / 2), pl_d = 1 \<rparr> tf_identity
     = [- FCL_REAL_max, - FCL_REAL_max, - FCL_REAL_max, - FCL_REAL_max,
        - FCL_REAL_max, sqrt 2, - FCL_REAL_max, - FCL_REAL_max, - FCL_REAL_max,
        FCL_REAL_max, FCL_REAL_max, FCL_REAL_max, FCL_REAL_max,
        FCL_REAL_max, sqrt 2, FCL_REAL_max, FCL_REAL_max, FCL_REAL_max]"
  by (simp add: computeBV_KDOP16_Plane_def computeBV_KDOP18_Plane_def transform_Plane_def
        tf_identity_def mat_identity_def mat_vec_def dot_def Let_def kdop_unbounded_def
        numeral_eq_Suc)

text \<open>
  The rest of the claim holds of the two routines. A normal that passes none of the
  alignment tests leaves all sixteen distances unbounded; a half-space changes at most one
  distance; a plane changes the two distances of one direction, or none, or those of the
  slip above.
\<close>

lemma unaligned_tests:
  assumes "\<not> aligned16 n"
  shows "\<not> (vy n = 0 \<and> vz n = 0)" "\<not> (vx n = 0 \<and> vz n = 0)" "\<not> (vx n = 0 \<and> vy n = 0)"
    "\<not> (vz n = 0 \<and> vx n = vy n)" "\<not> (vy n = 0 \<and> vx n = vz n)" "\<not> (vx n = 0 \<and> vy n = vz n)"
    "\<not> (vz n = 0 \<and> vx n + vy n = 0)" "\<not> (vy n = 0 \<and> vx n + vz n = 0)"
  using assms unfolding aligned16_def by blast+

lemma kdop16_halfspace_unaligned:
  assumes "\<not> aligned16 (hs_n (transform_Halfspace h tf))"
  shows "computeBV_KDOP16_Halfspace h tf = kdop_unbounded 8"
  unfolding computeBV_KDOP16_Halfspace_def Let_def
  by (simp only: unaligned_tests [OF assms] if_False)

lemma kdop16_plane_unaligned:
  assumes "\<not> aligned16 (pl_n (transform_Plane s tf))"
  shows "computeBV_KDOP16_Plane s tf = kdop_unbounded 8"
  unfolding computeBV_KDOP16_Plane_def Let_def
  by (simp only: unaligned_tests [OF assms] if_False)

lemma kdop16_halfspace_one_entry:
  "\<exists>i<16. \<exists>v. computeBV_KDOP16_Halfspace s tf = (kdop_unbounded 8)[i := v]"
proof -
  define P where "P xs \<longleftrightarrow> (\<exists>i<16. \<exists>v. xs = (kdop_unbounded 8)[i := v])" for xs
  have h1: "P ((kdop_unbounded 8)[j := x])" if "j < 16" for j x
    using that unfolding P_def by blast
  have "kdop_unbounded 8 = (kdop_unbounded 8)[0 := - FCL_REAL_max]"
    by (simp add: kdop_unbounded_def numeral_eq_Suc)
  then have h2: "P (kdop_unbounded 8)" using h1 [of 0 "- FCL_REAL_max"] by simp
  have "P (computeBV_KDOP16_Halfspace s tf)"
    by (simp add: computeBV_KDOP16_Halfspace_def Let_def h1 h2)
  then show ?thesis by (simp only: P_def)
qed

lemma kdop16_plane_one_pair_or_slip:
  "(\<exists>i<8. \<exists>v. computeBV_KDOP16_Plane s tf = (kdop_unbounded 8)[8 + i := v, i := v])
   \<or> computeBV_KDOP16_Plane s tf = kdop_unbounded 8
   \<or> (\<exists>v. computeBV_KDOP16_Plane s tf = (kdop_unbounded 8)[13 := v, 6 := v])"
proof -
  define P where "P xs \<longleftrightarrow>
     (\<exists>i<8. \<exists>v. xs = (kdop_unbounded 8)[8 + i := v, i := v])
     \<or> xs = kdop_unbounded 8 \<or> (\<exists>v. xs = (kdop_unbounded 8)[13 := v, 6 := v])" for xs
  have h1: "P ((kdop_unbounded 8)[8 + j := x, j := x])" if "j < 8" for j x
    using that unfolding P_def by blast
  have h2: "P (kdop_unbounded 8)" unfolding P_def by blast
  have h3: "P ((kdop_unbounded 8)[13 := x, 6 := x])" for x unfolding P_def by blast
  have "P (computeBV_KDOP16_Plane s tf)"
    using h1 [of 0] h1 [of 1] h1 [of 2] h1 [of 3] h1 [of 4] h1 [of 6] h1 [of 7]
    by (simp add: computeBV_KDOP16_Plane_def Let_def h2 h3)
  then show ?thesis by (simp only: P_def)
qed

text \<open>
  A second slip of the same routine family, on the half-space side: in the branch for the
  diagonal \<open>(1, 0, 1)\<close> the source tests \<^verbatim>\<open>n[1] > 0\<close>, which is false there because
  \<^verbatim>\<open>n[1] == 0\<close> guards the branch. The lower bound of direction 4 is written whatever the
  orientation of the normal, where the neighbouring branches choose between the lower and
  the upper bound.
\<close>

lemma kdop16_halfspace_diagonal_xz:
  "computeBV_KDOP16_Halfspace \<lparr> hs_n = Vector3d (sqrt 2 / 2) 0 (sqrt 2 / 2), hs_d = 1 \<rparr> tf_identity
     = [- FCL_REAL_max, - FCL_REAL_max, - FCL_REAL_max, - FCL_REAL_max,
        sqrt 2, - FCL_REAL_max, - FCL_REAL_max, - FCL_REAL_max,
        FCL_REAL_max, FCL_REAL_max, FCL_REAL_max, FCL_REAL_max,
        FCL_REAL_max, FCL_REAL_max, FCL_REAL_max, FCL_REAL_max]"
  by (simp add: computeBV_KDOP16_Halfspace_def transform_Halfspace_def
        tf_identity_def mat_identity_def mat_vec_def dot_def Let_def kdop_unbounded_def
        numeral_eq_Suc)

section \<open>C2: the parent transform in the box reconstructor\<close>

text \<open>
  Claim C2 says that the two-argument \<^verbatim>\<open>constructBox\<close> leaves the parent transform out
  for the kinds \<^verbatim>\<open>OBB\<close>, \<^verbatim>\<open>RSS\<close>, \<^verbatim>\<open>OBBRSS\<close> and \<^verbatim>\<open>kIOS\<close>. For an \<^verbatim>\<open>RSS\<close> at the
  origin with identity axes and a parent that translates by \<open>(1, 0, 0)\<close>, the returned
  transform is the parent's, not the bound's own.
\<close>

theorem constructBox_rss_composes_parent:
  "snd (constructBox_RSS_tf 2 2 0
          \<lparr> rss_axis = mat_identity, Tr = Vector3d 0 0 0, rss_l0 = 2, rss_l1 = 2, rss_r = 0 \<rparr>
          \<lparr> linear_part = mat_identity, translation = Vector3d 1 0 0 \<rparr>)
     \<noteq> \<lparr> linear_part = mat_identity, translation = Vector3d 0 0 0 \<rparr>
   \<and> snd (constructBox_RSS_tf 2 2 0
          \<lparr> rss_axis = mat_identity, Tr = Vector3d 0 0 0, rss_l0 = 2, rss_l1 = 2, rss_r = 0 \<rparr>
          \<lparr> linear_part = mat_identity, translation = Vector3d 1 0 0 \<rparr>)
     = \<lparr> linear_part = mat_identity, translation = Vector3d 1 0 0 \<rparr>"
  by (simp add: constructBox_RSS_tf_def tf_compose_def tf_apply_def mat_mul_def
        mat_vec_def mat_identity_def vec_add_def)

text \<open>
  Claim C2, amended. The two-argument \<^verbatim>\<open>constructBox\<close> returns the box of the one-argument
  \<^verbatim>\<open>constructBox\<close> and composes the parent transform with the one-argument transform
  (parent after local) for the kinds \<^verbatim>\<open>AABB\<close>, \<^verbatim>\<open>KDOP\<close>, \<^verbatim>\<open>RSS\<close>, \<^verbatim>\<open>OBBRSS\<close> and
  \<^verbatim>\<open>kIOS\<close>. For the kind \<^verbatim>\<open>OBB\<close> alone the parent transform is not composed: the result
  is that of the one-argument \<^verbatim>\<open>constructBox\<close>, the bound's own axes and centre.
\<close>

theorem constructBox_parent_composition:
  "constructBox_AABB_tf a tf_bv
     = (fst (constructBox_AABB a), tf_compose tf_bv (snd (constructBox_AABB a)))
   \<and> constructBox_KDOP_tf w h dp c k tf_bv
     = (fst (constructBox_KDOP w h dp c k), tf_compose tf_bv (snd (constructBox_KDOP w h dp c k)))
   \<and> constructBox_RSS_tf w h dp r tf_bv
     = (fst (constructBox_RSS w h dp r), tf_compose tf_bv (snd (constructBox_RSS w h dp r)))
   \<and> constructBox_OBBRSS_tf b tf_bv
     = (fst (constructBox_OBBRSS b), tf_compose tf_bv (snd (constructBox_OBBRSS b)))
   \<and> constructBox_kIOS_tf i tf_bv
     = (fst (constructBox_kIOS i), tf_compose tf_bv (snd (constructBox_kIOS i)))
   \<and> constructBox_OBB_tf ob tf_bv = constructBox_OBB ob
   \<and> snd (constructBox_OBB_tf ob tf_bv) = \<lparr> linear_part = axis ob, translation = To ob \<rparr>"
  by (simp add: constructBox_AABB_tf_def constructBox_AABB_def constructBox_KDOP_tf_def
        constructBox_KDOP_def constructBox_RSS_tf_def constructBox_RSS_def
        constructBox_OBBRSS_tf_def constructBox_OBBRSS_def constructBox_kIOS_tf_def
        constructBox_kIOS_def constructBox_OBB_tf_def constructBox_OBB_def
        tf_compose_pure_translation)

section \<open>C3: oriented boxes of half-spaces and planes\<close>

text \<open>
  Claim C3 says that the \<^verbatim>\<open>OBB\<close> of a half-space has one axis along the transformed
  normal with zero extent. For the half-space \<open>x \<le> 0\<close> under the identity transform the
  three extents of the computed box are all the unbounded sentinel, so no axis carries
  zero extent.
\<close>

theorem halfspace_obb_not_flat:
  "\<not> obb_flat_along
        (computeBV_OBB_Halfspace \<lparr> hs_n = Vector3d 1 0 0, hs_d = 0 \<rparr> tf_identity)
        (hs_n (transform_Halfspace \<lparr> hs_n = Vector3d 1 0 0, hs_d = 0 \<rparr> tf_identity))"
  using FCL_REAL_max_pos
  by (simp add: obb_flat_along_def computeBV_OBB_Halfspace_def vec_constant_def)

text \<open>
  Claim C3, amended. For every plane and every transform, the \<^verbatim>\<open>OBB\<close> computed by
  \<^verbatim>\<open>computeBV\<close> has axis 0 equal to the transformed normal with zero extent, its other two
  extents are the unbounded sentinel, and its centre is the image of \<open>n d\<close>; this holds
  for every \<^verbatim>\<open>generateCoordinateSystem\<close> that keeps column 0 of the matrix it completes.
  For every half-space and every transform the \<^verbatim>\<open>OBB\<close> is the rough box with identity
  axes, centre zero and all three extents at the unbounded sentinel.
\<close>

theorem plane_obb_flat_halfspace_obb_unbounded:
  assumes "\<forall>A. mat_col (gcs A) 0 = mat_col A 0"
  shows "mat_col (axis (computeBV_OBB_Plane gcs s tf bv)) 0 = pl_n (transform_Plane s tf)
       \<and> extent (computeBV_OBB_Plane gcs s tf bv) = Vector3d 0 FCL_REAL_max FCL_REAL_max
       \<and> obb_flat_along (computeBV_OBB_Plane gcs s tf bv) (pl_n (transform_Plane s tf))
       \<and> To (computeBV_OBB_Plane gcs s tf bv) = tf_apply tf (vec_scale (pl_n s) (pl_d s))
       \<and> computeBV_OBB_Halfspace h tf
           = \<lparr> axis = mat_identity, To = Vector3d 0 0 0,
               extent = Vector3d FCL_REAL_max FCL_REAL_max FCL_REAL_max \<rparr>"
  using assms
  by (simp add: obb_flat_along_def computeBV_OBB_Plane_def computeBV_OBB_Halfspace_def Let_def
        transform_Plane_def mat_col0_set_col0 vec_constant_def)

theorem plane_obb_flat_halfspace_obb_unbounded_witness:
  "(\<forall>A. mat_col (complete_basis A) 0 = mat_col A 0)
   \<and> axis (computeBV_OBB_Plane complete_basis \<lparr> pl_n = Vector3d 1 0 0, pl_d = 2 \<rparr>
        \<lparr> linear_part = rot_z90, translation = Vector3d 1 2 3 \<rparr>
        \<lparr> axis = mat_identity, To = Vector3d 0 0 0, extent = Vector3d 0 0 0 \<rparr>)
       = Matrix3d 0 0 (- 1)  1 0 0  0 (- 1) 0
   \<and> obb_flat_along
       (computeBV_OBB_Plane complete_basis \<lparr> pl_n = Vector3d 1 0 0, pl_d = 2 \<rparr>
          \<lparr> linear_part = rot_z90, translation = Vector3d 1 2 3 \<rparr>
          \<lparr> axis = mat_identity, To = Vector3d 0 0 0, extent = Vector3d 0 0 0 \<rparr>)
       (Vector3d 0 1 0)"
proof -
  have h: "\<forall>A. mat_col (complete_basis A) 0 = mat_col A 0"
    by (simp add: complete_basis_col0)
  have n: "pl_n (transform_Plane \<lparr> pl_n = Vector3d 1 0 0, pl_d = 2 \<rparr>
        \<lparr> linear_part = rot_z90, translation = Vector3d 1 2 3 \<rparr>) = Vector3d 0 1 0"
    by (simp add: transform_Plane_def Let_def rot_z90_def mat_vec_def)
  have a: "axis (computeBV_OBB_Plane complete_basis \<lparr> pl_n = Vector3d 1 0 0, pl_d = 2 \<rparr>
        \<lparr> linear_part = rot_z90, translation = Vector3d 1 2 3 \<rparr>
        \<lparr> axis = mat_identity, To = Vector3d 0 0 0, extent = Vector3d 0 0 0 \<rparr>)
       = Matrix3d 0 0 (- 1)  1 0 0  0 (- 1) 0"
    by (simp add: computeBV_OBB_Plane_def Let_def rot_z90_def mat_vec_def complete_basis_def
          set_col0_def mat_col_def mat_identity_def vec_scale_def vec_cross_def
          mat_at_def vec_at_def)
  from plane_obb_flat_halfspace_obb_unbounded [OF h,
      of "\<lparr> pl_n = Vector3d 1 0 0, pl_d = 2 \<rparr>"
         "\<lparr> linear_part = rot_z90, translation = Vector3d 1 2 3 \<rparr>"
         "\<lparr> axis = mat_identity, To = Vector3d 0 0 0, extent = Vector3d 0 0 0 \<rparr>"]
  show ?thesis using h n a by simp
qed

section \<open>C4: the dedicated box against the box of the sampled vertices\<close>

subsection \<open>The support of the icosahedron\<close>





subsection \<open>The rows of a rotation are unit vectors\<close>






subsection \<open>The constants of the sampled icosahedron\<close>









subsection \<open>Sampled vertices beyond the sphere\<close>










subsection \<open>The eight corners of a box\<close>




subsection \<open>The claim\<close>






section \<open>C5: the half-space with normal along x\<close>

text \<open>
  Claim C5. For the half-space with normal \<open>(1, 0, 0)\<close> and offset \<open>d\<close> under the identity
  transform, the \<^verbatim>\<open>AABB\<close> has \<open>max.x = d\<close> and its other five bounds at the unbounded
  sentinel, and the \<^verbatim>\<open>KDOP<16>\<close> has the entry \<open>d\<close> in slot \<open>D = 8\<close>, the upper bound
  along the direction \<open>+x\<close>, and the unbounded sentinel in its other fifteen slots. The
  "infinity" of the claim is the sentinel \<open>\<plusminus> FCL_REAL_max\<close> that the source stores.
\<close>

theorem halfspace_x_identity:
  "computeBV_AABB_Halfspace \<lparr> hs_n = Vector3d 1 0 0, hs_d = d \<rparr> tf_identity
     = \<lparr> aabb_min = Vector3d (- FCL_REAL_max) (- FCL_REAL_max) (- FCL_REAL_max),
         aabb_max = Vector3d d FCL_REAL_max FCL_REAL_max \<rparr>
   \<and> computeBV_KDOP16_Halfspace \<lparr> hs_n = Vector3d 1 0 0, hs_d = d \<rparr> tf_identity
     = [- FCL_REAL_max, - FCL_REAL_max, - FCL_REAL_max, - FCL_REAL_max,
        - FCL_REAL_max, - FCL_REAL_max, - FCL_REAL_max, - FCL_REAL_max,
        d, FCL_REAL_max, FCL_REAL_max, FCL_REAL_max,
        FCL_REAL_max, FCL_REAL_max, FCL_REAL_max, FCL_REAL_max]"
  by (simp add: computeBV_AABB_Halfspace_def computeBV_KDOP16_Halfspace_def transform_Halfspace_def
      tf_identity_def mat_identity_def mat_vec_def dot_def Let_def vec_constant_def set_x_def
      kdop_unbounded_def numeral_eq_Suc)

section \<open>C6: the transform of a half-space and of a plane\<close>

text \<open>
  Claim C6. For a half-space \<open>n \<cdot> x \<le> d\<close> and a rigid transform \<open>(R, T)\<close>, \<open>transform\<close>
  returns the half-space with normal \<open>n' = R n\<close> and offset \<open>d' = d + n' \<cdot> T\<close>, and a point
  \<open>x\<close> lies in the half-space exactly when its image \<open>R x + T\<close> lies in the returned
  one. The same holds for a plane, with equality in place of the inequality.
\<close>

theorem transform_halfspace_plane_correct:
  assumes "rigid tf"
  shows "hs_n (transform_Halfspace h tf) = mat_vec (linear_part tf) (hs_n h)
       \<and> hs_d (transform_Halfspace h tf)
           = hs_d h + dot (mat_vec (linear_part tf) (hs_n h)) (translation tf)
       \<and> (dot (hs_n h) p \<le> hs_d h \<longleftrightarrow>
            dot (hs_n (transform_Halfspace h tf)) (tf_apply tf p)
              \<le> hs_d (transform_Halfspace h tf))
       \<and> pl_n (transform_Plane q tf) = mat_vec (linear_part tf) (pl_n q)
       \<and> pl_d (transform_Plane q tf)
           = pl_d q + dot (mat_vec (linear_part tf) (pl_n q)) (translation tf)
       \<and> (dot (pl_n q) p = pl_d q \<longleftrightarrow>
            dot (pl_n (transform_Plane q tf)) (tf_apply tf p)
              = pl_d (transform_Plane q tf))"
  using dot_rigid [OF assms]
  by (simp add: transform_Halfspace_def transform_Plane_def Let_def tf_apply_def dot_vec_add)

theorem transform_halfspace_plane_correct_witness:
  "rigid \<lparr> linear_part = rot_z90, translation = Vector3d 1 2 3 \<rparr>
   \<and> hs_n (transform_Halfspace \<lparr> hs_n = Vector3d 1 0 0, hs_d = 5 \<rparr>
        \<lparr> linear_part = rot_z90, translation = Vector3d 1 2 3 \<rparr>) = Vector3d 0 1 0
   \<and> hs_d (transform_Halfspace \<lparr> hs_n = Vector3d 1 0 0, hs_d = 5 \<rparr>
        \<lparr> linear_part = rot_z90, translation = Vector3d 1 2 3 \<rparr>) = 7
   \<and> (dot (Vector3d 1 0 0) (Vector3d 4 0 0) \<le> 5 \<longleftrightarrow>
        dot (hs_n (transform_Halfspace \<lparr> hs_n = Vector3d 1 0 0, hs_d = 5 \<rparr>
               \<lparr> linear_part = rot_z90, translation = Vector3d 1 2 3 \<rparr>))
            (tf_apply \<lparr> linear_part = rot_z90, translation = Vector3d 1 2 3 \<rparr> (Vector3d 4 0 0))
          \<le> hs_d (transform_Halfspace \<lparr> hs_n = Vector3d 1 0 0, hs_d = 5 \<rparr>
               \<lparr> linear_part = rot_z90, translation = Vector3d 1 2 3 \<rparr>))"
proof -
  have r: "rigid \<lparr> linear_part = rot_z90, translation = Vector3d 1 2 3 \<rparr>"
    by (rule rigid_rot_z90)
  show ?thesis
    using r transform_halfspace_plane_correct [OF r,
        of "\<lparr> hs_n = Vector3d 1 0 0, hs_d = 5 \<rparr>" "Vector3d 4 0 0"
           "\<lparr> pl_n = Vector3d 1 0 0, pl_d = 5 \<rparr>"]
    by (simp add: rot_z90_def mat_vec_def dot_def transform_Halfspace_def Let_def)
qed

section \<open>C7: the axis-aligned box of a box\<close>

text \<open>
  Claim C7. For every box with side lengths \<open>(s0, s1, s2)\<close>, none negative, and every
  transform with rotation \<open>R\<close> and translation \<open>T\<close>, the \<^verbatim>\<open>AABB\<close> computed by
  \<^verbatim>\<open>computeBV\<close> is centred at \<open>T\<close>, and along every world axis \<open>i\<close> it reaches from \<open>T\<close>
  by the sum over the local axes \<open>j\<close> of \<open>|R(i, j)|\<close> times the half-extent \<open>s_j / 2\<close>, on
  the side of the maximum and on the side of the minimum.
\<close>

theorem box_aabb_half_range:
  assumes "0 \<le> vx (side s)" and "0 \<le> vy (side s)" and "0 \<le> vz (side s)"
  shows "AABB_center (computeBV_AABB_Box s tf) = translation tf
       \<and> (\<forall>i<3. vec_at (aabb_max (computeBV_AABB_Box s tf)) i - vec_at (translation tf) i
                    = (\<Sum>j<3. \<bar>mat_at (linear_part tf) i j\<bar> * (vec_at (side s) j / 2))
                \<and> vec_at (translation tf) i - vec_at (aabb_min (computeBV_AABB_Box s tf)) i
                    = (\<Sum>j<3. \<bar>mat_at (linear_part tf) i j\<bar> * (vec_at (side s) j / 2)))"
proof -
  have c: "AABB_center (computeBV_AABB_Box s tf) = translation tf"
    by (cases "translation tf")
       (simp add: AABB_center_def computeBV_AABB_Box_def Let_def aabb_around_def
          vec_add_def vec_sub_def vec_scale_def)
  have r: "vec_at (aabb_max (computeBV_AABB_Box s tf)) i - vec_at (translation tf) i
             = (\<Sum>j<3. \<bar>mat_at (linear_part tf) i j\<bar> * (vec_at (side s) j / 2))
         \<and> vec_at (translation tf) i - vec_at (aabb_min (computeBV_AABB_Box s tf)) i
             = (\<Sum>j<3. \<bar>mat_at (linear_part tf) i j\<bar> * (vec_at (side s) j / 2))"
    if "i < 3" for i
    using less_3_cases [OF that] assms
    by (auto simp: sum_lessThan_3 computeBV_AABB_Box_def Let_def aabb_around_def
          vec_add_def vec_sub_def abs_mult mat_at_def vec_at_def)
  from c r show ?thesis by blast
qed

theorem box_aabb_half_range_witness:
  "0 \<le> vx (side \<lparr> side = Vector3d 2 4 6 \<rparr>)
   \<and> 0 \<le> vy (side \<lparr> side = Vector3d 2 4 6 \<rparr>)
   \<and> 0 \<le> vz (side \<lparr> side = Vector3d 2 4 6 \<rparr>)
   \<and> (0::nat) < 3
   \<and> AABB_center (computeBV_AABB_Box \<lparr> side = Vector3d 2 4 6 \<rparr>
        \<lparr> linear_part = rot_z90, translation = Vector3d 1 2 3 \<rparr>) = Vector3d 1 2 3
   \<and> vec_at (aabb_max (computeBV_AABB_Box \<lparr> side = Vector3d 2 4 6 \<rparr>
        \<lparr> linear_part = rot_z90, translation = Vector3d 1 2 3 \<rparr>)) 0 - 1
       = (\<Sum>j<3. \<bar>mat_at rot_z90 0 j\<bar> * (vec_at (Vector3d 2 4 6) j / 2))
   \<and> (\<Sum>j<3. \<bar>mat_at rot_z90 0 j\<bar> * (vec_at (Vector3d 2 4 6) j / 2)) = 2"
proof -
  have h: "0 \<le> vx (side \<lparr> side = Vector3d 2 4 6 \<rparr>)"
    "0 \<le> vy (side \<lparr> side = Vector3d 2 4 6 \<rparr>)"
    "0 \<le> vz (side \<lparr> side = Vector3d 2 4 6 \<rparr>)"
    by simp_all
  have z: "(0::nat) < 3" by simp
  have v: "(\<Sum>j<3. \<bar>mat_at rot_z90 0 j\<bar> * (vec_at (Vector3d 2 4 6) j / 2)) = 2"
    by (simp add: sum_lessThan_3 mat_at_def vec_at_def rot_z90_def)
  note t = box_aabb_half_range [OF h, of "\<lparr> linear_part = rot_z90, translation = Vector3d 1 2 3 \<rparr>"]
  from t have c: "AABB_center (computeBV_AABB_Box \<lparr> side = Vector3d 2 4 6 \<rparr>
        \<lparr> linear_part = rot_z90, translation = Vector3d 1 2 3 \<rparr>) = Vector3d 1 2 3"
    by simp
  from t z have "vec_at (aabb_max (computeBV_AABB_Box \<lparr> side = Vector3d 2 4 6 \<rparr>
        \<lparr> linear_part = rot_z90, translation = Vector3d 1 2 3 \<rparr>)) 0
        - vec_at (translation \<lparr> linear_part = rot_z90, translation = Vector3d 1 2 3 \<rparr>) 0
       = (\<Sum>j<3. \<bar>mat_at (linear_part \<lparr> linear_part = rot_z90, translation = Vector3d 1 2 3 \<rparr>) 0 j\<bar>
            * (vec_at (side \<lparr> side = Vector3d 2 4 6 \<rparr>) j / 2))"
    by blast
  then have m: "vec_at (aabb_max (computeBV_AABB_Box \<lparr> side = Vector3d 2 4 6 \<rparr>
        \<lparr> linear_part = rot_z90, translation = Vector3d 1 2 3 \<rparr>)) 0 - 1
       = (\<Sum>j<3. \<bar>mat_at rot_z90 0 j\<bar> * (vec_at (Vector3d 2 4 6) j / 2))"
    by (simp add: vec_at_def)
  from h z c m v show ?thesis by simp
qed

section \<open>C8: a box under a quarter turn about z\<close>

text \<open>
  Claim C8. For every box and every transform, applying the rotation by 90 degrees about
  the z axis after the transform and recomputing the \<^verbatim>\<open>AABB\<close> swaps the extents of the
  \<^verbatim>\<open>AABB\<close> along x and y and keeps the extent along z. For every transform the
  \<^verbatim>\<open>OBB\<close> computed by \<^verbatim>\<open>computeBV\<close> has the box's half side lengths as extents and the
  rotation of the transform as axes, so the quarter turn leaves the extents as they are
  and rotates the axes.
\<close>

theorem box_rotation_extents:
  "vx (aabb_size (computeBV_AABB_Box s (tf_compose \<lparr> linear_part = rot_z90, translation = t \<rparr> tf)))
     = vy (aabb_size (computeBV_AABB_Box s tf))
   \<and> vy (aabb_size (computeBV_AABB_Box s (tf_compose \<lparr> linear_part = rot_z90, translation = t \<rparr> tf)))
     = vx (aabb_size (computeBV_AABB_Box s tf))
   \<and> vz (aabb_size (computeBV_AABB_Box s (tf_compose \<lparr> linear_part = rot_z90, translation = t \<rparr> tf)))
     = vz (aabb_size (computeBV_AABB_Box s tf))
   \<and> extent (computeBV_OBB_Box s tf) = vec_scale (side s) (1 / 2)
   \<and> axis (computeBV_OBB_Box s tf) = linear_part tf
   \<and> extent (computeBV_OBB_Box s (tf_compose \<lparr> linear_part = rot_z90, translation = t \<rparr> tf))
       = extent (computeBV_OBB_Box s tf)
   \<and> axis (computeBV_OBB_Box s (tf_compose \<lparr> linear_part = rot_z90, translation = t \<rparr> tf))
       = mat_mul rot_z90 (axis (computeBV_OBB_Box s tf))"
  by (simp add: aabb_size_def computeBV_AABB_Box_def computeBV_OBB_Box_def Let_def aabb_around_def
      tf_compose_def rot_z90_def mat_mul_def vec_sub_def vec_add_def)

section \<open>C9: the corners of an axis-aligned box are ordered\<close>

lemma add_point_ordered: "aabb_ordered (AABB_add_point bv p)"
  by (auto simp: aabb_ordered_def AABB_add_point_def vec_min_def vec_max_def)

lemma convex_loop_ordered:
  "aabb_ordered bv \<Longrightarrow> aabb_ordered (convex_loop R T ps bv)"
proof (induction ps arbitrary: bv)
  case Nil
  then show ?case by simp
next
  case (Cons p ps)
  have "aabb_ordered (AABB_add_point bv (vec_add (mat_vec R p) T))"
    by (rule add_point_ordered)
  then show ?case by (simp add: Let_def Cons.IH)
qed

lemma convex_ordered:
  "points s \<noteq> [] \<Longrightarrow> aabb_ordered (computeBV_AABB_Convex s tf)"
  by (cases "points s")
     (simp_all add: computeBV_AABB_Convex_def Let_def convex_loop_ordered add_point_ordered)

lemma aabb_around_ordered:
  "0 \<le> vx v \<Longrightarrow> 0 \<le> vy v \<Longrightarrow> 0 \<le> vz v \<Longrightarrow> aabb_ordered (aabb_around T v)"
  by (simp add: aabb_ordered_def aabb_around_def vec_sub_def vec_add_def)

lemma halfspace_box_none:
  assumes "\<not> (vy (hs_n (transform_Halfspace s tf)) = 0 \<and> vz (hs_n (transform_Halfspace s tf)) = 0
               \<and> vx (hs_n (transform_Halfspace s tf)) \<noteq> 0)"
    and "\<not> (vx (hs_n (transform_Halfspace s tf)) = 0 \<and> vz (hs_n (transform_Halfspace s tf)) = 0
               \<and> vy (hs_n (transform_Halfspace s tf)) \<noteq> 0)"
    and "\<not> (vx (hs_n (transform_Halfspace s tf)) = 0 \<and> vy (hs_n (transform_Halfspace s tf)) = 0
               \<and> vz (hs_n (transform_Halfspace s tf)) \<noteq> 0)"
  shows "computeBV_AABB_Halfspace s tf =
           \<lparr> aabb_min = vec_constant (- FCL_REAL_max), aabb_max = vec_constant FCL_REAL_max \<rparr>"
proof -
  define n where "n = hs_n (transform_Halfspace s tf)"
  have a: "\<not> (vy n = 0 \<and> vz n = 0 \<and> vx n \<noteq> 0)" "\<not> (vx n = 0 \<and> vz n = 0 \<and> vy n \<noteq> 0)"
    "\<not> (vx n = 0 \<and> vy n = 0 \<and> vz n \<noteq> 0)"
    unfolding n_def by (rule assms)+
  have e: "computeBV_AABB_Halfspace s tf =
     (let d = hs_d (transform_Halfspace s tf);
          bv = \<lparr> aabb_min = vec_constant (- FCL_REAL_max), aabb_max = vec_constant FCL_REAL_max \<rparr>
      in if vy n = 0 \<and> vz n = 0 then
           (if vx n < 0 then bv\<lparr> aabb_min := set_x (aabb_min bv) (- d) \<rparr>
            else if vx n > 0 then bv\<lparr> aabb_max := set_x (aabb_max bv) d \<rparr>
            else bv)
         else if vx n = 0 \<and> vz n = 0 then
           (if vy n < 0 then bv\<lparr> aabb_min := set_y (aabb_min bv) (- d) \<rparr>
            else if vy n > 0 then bv\<lparr> aabb_max := set_y (aabb_max bv) d \<rparr>
            else bv)
         else if vx n = 0 \<and> vy n = 0 then
           (if vz n < 0 then bv\<lparr> aabb_min := set_z (aabb_min bv) (- d) \<rparr>
            else if vz n > 0 then bv\<lparr> aabb_max := set_z (aabb_max bv) d \<rparr>
            else bv)
         else bv)"
    unfolding computeBV_AABB_Halfspace_def n_def Let_def ..
  show ?thesis
  proof (cases "vy n = 0 \<and> vz n = 0")
    case True
    with a(1) have "vx n = 0" by blast
    with True show ?thesis unfolding e Let_def by simp
  next
    case f1: False
    show ?thesis
    proof (cases "vx n = 0 \<and> vz n = 0")
      case True
      with a(2) have "vy n = 0" by blast
      with True f1 show ?thesis unfolding e Let_def by simp
    next
      case f2: False
      show ?thesis
      proof (cases "vx n = 0 \<and> vy n = 0")
        case True
        with a(3) have "vz n = 0" by blast
        with True f1 f2 show ?thesis unfolding e Let_def by simp
      next
        case False
        with f1 f2 show ?thesis unfolding e Let_def by (simp only: if_False)
      qed
    qed
  qed
qed

lemma halfspace_box_x_neg:
  "vy (hs_n (transform_Halfspace s tf)) = 0 \<Longrightarrow> vz (hs_n (transform_Halfspace s tf)) = 0 \<Longrightarrow> vx (hs_n (transform_Halfspace s tf)) < 0
   \<Longrightarrow> computeBV_AABB_Halfspace s tf =
         \<lparr> aabb_min = Vector3d (- hs_d (transform_Halfspace s tf)) (- FCL_REAL_max) (- FCL_REAL_max),
           aabb_max = vec_constant FCL_REAL_max \<rparr>"
  by (simp add: computeBV_AABB_Halfspace_def Let_def vec_constant_def set_x_def)

lemma halfspace_box_x_pos:
  "vy (hs_n (transform_Halfspace s tf)) = 0 \<Longrightarrow> vz (hs_n (transform_Halfspace s tf)) = 0 \<Longrightarrow> 0 < vx (hs_n (transform_Halfspace s tf))
   \<Longrightarrow> computeBV_AABB_Halfspace s tf =
         \<lparr> aabb_min = vec_constant (- FCL_REAL_max),
           aabb_max = Vector3d (hs_d (transform_Halfspace s tf)) (FCL_REAL_max) (FCL_REAL_max) \<rparr>"
  by (simp add: computeBV_AABB_Halfspace_def Let_def vec_constant_def set_x_def)

lemma halfspace_box_y_neg:
  "vx (hs_n (transform_Halfspace s tf)) = 0 \<Longrightarrow> vz (hs_n (transform_Halfspace s tf)) = 0 \<Longrightarrow> vy (hs_n (transform_Halfspace s tf)) < 0
   \<Longrightarrow> computeBV_AABB_Halfspace s tf =
         \<lparr> aabb_min = Vector3d (- FCL_REAL_max) (- hs_d (transform_Halfspace s tf)) (- FCL_REAL_max),
           aabb_max = vec_constant FCL_REAL_max \<rparr>"
  by (simp add: computeBV_AABB_Halfspace_def Let_def vec_constant_def set_y_def)

lemma halfspace_box_y_pos:
  "vx (hs_n (transform_Halfspace s tf)) = 0 \<Longrightarrow> vz (hs_n (transform_Halfspace s tf)) = 0 \<Longrightarrow> 0 < vy (hs_n (transform_Halfspace s tf))
   \<Longrightarrow> computeBV_AABB_Halfspace s tf =
         \<lparr> aabb_min = vec_constant (- FCL_REAL_max),
           aabb_max = Vector3d (FCL_REAL_max) (hs_d (transform_Halfspace s tf)) (FCL_REAL_max) \<rparr>"
  by (simp add: computeBV_AABB_Halfspace_def Let_def vec_constant_def set_y_def)

lemma halfspace_box_z_neg:
  "vx (hs_n (transform_Halfspace s tf)) = 0 \<Longrightarrow> vy (hs_n (transform_Halfspace s tf)) = 0 \<Longrightarrow> vz (hs_n (transform_Halfspace s tf)) < 0
   \<Longrightarrow> computeBV_AABB_Halfspace s tf =
         \<lparr> aabb_min = Vector3d (- FCL_REAL_max) (- FCL_REAL_max) (- hs_d (transform_Halfspace s tf)),
           aabb_max = vec_constant FCL_REAL_max \<rparr>"
  by (simp add: computeBV_AABB_Halfspace_def Let_def vec_constant_def set_z_def)

lemma halfspace_box_z_pos:
  "vx (hs_n (transform_Halfspace s tf)) = 0 \<Longrightarrow> vy (hs_n (transform_Halfspace s tf)) = 0 \<Longrightarrow> 0 < vz (hs_n (transform_Halfspace s tf))
   \<Longrightarrow> computeBV_AABB_Halfspace s tf =
         \<lparr> aabb_min = vec_constant (- FCL_REAL_max),
           aabb_max = Vector3d (FCL_REAL_max) (FCL_REAL_max) (hs_d (transform_Halfspace s tf)) \<rparr>"
  by (simp add: computeBV_AABB_Halfspace_def Let_def vec_constant_def set_z_def)

lemma halfspace_ordered:
  "aabb_ordered (computeBV_AABB_Halfspace s tf) \<longleftrightarrow> offset_in_range (SHalfspace s) tf"
proof -
  let ?n = "hs_n (transform_Halfspace s tf)"
  let ?d = "hs_d (transform_Halfspace s tf)"
  have M: "- FCL_REAL_max \<le> FCL_REAL_max" using FCL_REAL_max_pos by linarith
  have tri: "vx ?n < 0 \<or> vx ?n = 0 \<or> 0 < vx ?n" "vy ?n < 0 \<or> vy ?n = 0 \<or> 0 < vy ?n"
    "vz ?n < 0 \<or> vz ?n = 0 \<or> 0 < vz ?n"
    by linarith+
  then consider (xn) "vy ?n = 0" "vz ?n = 0" "vx ?n < 0" | (xp) "vy ?n = 0" "vz ?n = 0" "0 < vx ?n"
    | (yn) "vx ?n = 0" "vz ?n = 0" "vy ?n < 0" | (yp) "vx ?n = 0" "vz ?n = 0" "0 < vy ?n"
    | (zn) "vx ?n = 0" "vy ?n = 0" "vz ?n < 0" | (zp) "vx ?n = 0" "vy ?n = 0" "0 < vz ?n"
    | (none) "\<not> (vy ?n = 0 \<and> vz ?n = 0 \<and> vx ?n \<noteq> 0)" "\<not> (vx ?n = 0 \<and> vz ?n = 0 \<and> vy ?n \<noteq> 0)"
        "\<not> (vx ?n = 0 \<and> vy ?n = 0 \<and> vz ?n \<noteq> 0)"
    by blast
  then show ?thesis
  proof cases
    case xn
    have "aabb_ordered (computeBV_AABB_Halfspace s tf) \<longleftrightarrow> - ?d \<le> FCL_REAL_max"
      using M by (simp add: halfspace_box_x_neg [OF xn] aabb_ordered_def vec_constant_def)
    moreover have "offset_in_range (SHalfspace s) tf \<longleftrightarrow> - FCL_REAL_max \<le> ?d"
      using xn by (simp add: Let_def)
    ultimately show ?thesis by linarith
  next
    case xp
    have "aabb_ordered (computeBV_AABB_Halfspace s tf) \<longleftrightarrow> - FCL_REAL_max \<le> ?d"
      using M by (simp add: halfspace_box_x_pos [OF xp] aabb_ordered_def vec_constant_def)
    moreover have "offset_in_range (SHalfspace s) tf \<longleftrightarrow> - FCL_REAL_max \<le> ?d"
      using xp by (simp add: Let_def)
    ultimately show ?thesis by simp
  next
    case yn
    have "aabb_ordered (computeBV_AABB_Halfspace s tf) \<longleftrightarrow> - ?d \<le> FCL_REAL_max"
      using M by (simp add: halfspace_box_y_neg [OF yn] aabb_ordered_def vec_constant_def)
    moreover have "offset_in_range (SHalfspace s) tf \<longleftrightarrow> - FCL_REAL_max \<le> ?d"
      using yn by (simp add: Let_def)
    ultimately show ?thesis by linarith
  next
    case yp
    have "aabb_ordered (computeBV_AABB_Halfspace s tf) \<longleftrightarrow> - FCL_REAL_max \<le> ?d"
      using M by (simp add: halfspace_box_y_pos [OF yp] aabb_ordered_def vec_constant_def)
    moreover have "offset_in_range (SHalfspace s) tf \<longleftrightarrow> - FCL_REAL_max \<le> ?d"
      using yp by (simp add: Let_def)
    ultimately show ?thesis by simp
  next
    case zn
    have "aabb_ordered (computeBV_AABB_Halfspace s tf) \<longleftrightarrow> - ?d \<le> FCL_REAL_max"
      using M by (simp add: halfspace_box_z_neg [OF zn] aabb_ordered_def vec_constant_def)
    moreover have "offset_in_range (SHalfspace s) tf \<longleftrightarrow> - FCL_REAL_max \<le> ?d"
      using zn by (simp add: Let_def)
    ultimately show ?thesis by linarith
  next
    case zp
    have "aabb_ordered (computeBV_AABB_Halfspace s tf) \<longleftrightarrow> - FCL_REAL_max \<le> ?d"
      using M by (simp add: halfspace_box_z_pos [OF zp] aabb_ordered_def vec_constant_def)
    moreover have "offset_in_range (SHalfspace s) tf \<longleftrightarrow> - FCL_REAL_max \<le> ?d"
      using zp by (simp add: Let_def)
    ultimately show ?thesis by simp
  next
    case none
    have "aabb_ordered (computeBV_AABB_Halfspace s tf)"
      using M by (simp add: halfspace_box_none [OF none] aabb_ordered_def vec_constant_def)
    moreover have "offset_in_range (SHalfspace s) tf"
      using none by (simp only: offset_in_range.simps Let_def) simp
    ultimately show ?thesis by simp
  qed
qed

lemma plane_ordered: "aabb_ordered (computeBV_AABB_Plane s tf)"
  using FCL_REAL_max_pos
  by (simp add: computeBV_AABB_Plane_def Let_def aabb_ordered_def vec_constant_def
        set_x_def set_y_def set_z_def)

lemma triangle_ordered: "aabb_ordered (computeBV_AABB_TriangleP s tf)"
  by (auto simp: computeBV_AABB_TriangleP_def AABB_of3_def aabb_ordered_def vec_min_def vec_max_def)

text \<open>
  Claim C9 says that the \<^verbatim>\<open>AABB\<close> of every shape of the catalogue under every rigid
  transform has \<open>min \<le> max\<close> in every component. For the half-space with normal
  \<open>(1, 0, 0)\<close> and offset \<open>- FCL_REAL_max\<close> under the translation by
  \<open>(- FCL_REAL_max, 0, 0)\<close>, the transformed offset is \<open>- 2 FCL_REAL_max\<close> and
  \<^verbatim>\<open>computeBV\<close> stores it in \<open>max.x\<close>, below \<open>min.x = - FCL_REAL_max\<close>.
\<close>

theorem halfspace_aabb_unordered:
  "well_formed (SHalfspace \<lparr> hs_n = Vector3d 1 0 0, hs_d = - FCL_REAL_max \<rparr>)
   \<and> rigid \<lparr> linear_part = mat_identity, translation = Vector3d (- FCL_REAL_max) 0 0 \<rparr>
   \<and> computeBV_AABB (SHalfspace \<lparr> hs_n = Vector3d 1 0 0, hs_d = - FCL_REAL_max \<rparr>)
         \<lparr> linear_part = mat_identity, translation = Vector3d (- FCL_REAL_max) 0 0 \<rparr>
       = \<lparr> aabb_min = Vector3d (- FCL_REAL_max) (- FCL_REAL_max) (- FCL_REAL_max),
           aabb_max = Vector3d (- FCL_REAL_max - FCL_REAL_max) FCL_REAL_max FCL_REAL_max \<rparr>
   \<and> \<not> aabb_ordered
         (computeBV_AABB (SHalfspace \<lparr> hs_n = Vector3d 1 0 0, hs_d = - FCL_REAL_max \<rparr>)
            \<lparr> linear_part = mat_identity, translation = Vector3d (- FCL_REAL_max) 0 0 \<rparr>)"
proof -
  have r: "rigid \<lparr> linear_part = mat_identity, translation = Vector3d (- FCL_REAL_max) 0 0 \<rparr>"
    by (simp add: rigid_def mat_identity_def mat_mul_def mat_transpose_def mat_det_def)
  have e: "computeBV_AABB (SHalfspace \<lparr> hs_n = Vector3d 1 0 0, hs_d = - FCL_REAL_max \<rparr>)
         \<lparr> linear_part = mat_identity, translation = Vector3d (- FCL_REAL_max) 0 0 \<rparr>
       = \<lparr> aabb_min = Vector3d (- FCL_REAL_max) (- FCL_REAL_max) (- FCL_REAL_max),
           aabb_max = Vector3d (- FCL_REAL_max - FCL_REAL_max) FCL_REAL_max FCL_REAL_max \<rparr>"
    by (simp add: computeBV_AABB_Halfspace_def transform_Halfspace_def Let_def dot_def
          mat_vec_def mat_identity_def vec_constant_def set_x_def)
  have "\<not> - FCL_REAL_max \<le> - FCL_REAL_max - FCL_REAL_max" using FCL_REAL_max_pos by linarith
  then have n: "\<not> aabb_ordered \<lparr> aabb_min = Vector3d (- FCL_REAL_max) (- FCL_REAL_max) (- FCL_REAL_max),
           aabb_max = Vector3d (- FCL_REAL_max - FCL_REAL_max) FCL_REAL_max FCL_REAL_max \<rparr>"
    by (simp add: aabb_ordered_def)
  show ?thesis using r e n by simp
qed

text \<open>
  Claim C9, amended. For every shape of the catalogue that meets the catalogue's
  invariants (positive sizes, a non-empty point list for a convex polytope) and every
  transform, the \<^verbatim>\<open>AABB\<close> returned by \<^verbatim>\<open>computeBV\<close> has \<open>min \<le> max\<close> in every component,
  with one exception: a half-space whose transformed normal is aligned with a coordinate
  axis and whose transformed offset \<open>d' = d + n' \<cdot> T\<close> is below \<open>- FCL_REAL_max\<close>. For such a
  half-space \<open>min \<le> max\<close> fails.
\<close>

theorem computeBV_AABB_ordered:
  assumes "well_formed s"
  shows "aabb_ordered (computeBV_AABB s tf) \<longleftrightarrow> offset_in_range s tf"
proof (cases s)
  case (SBox b)
  then show ?thesis
    by (simp add: computeBV_AABB_Box_def Let_def aabb_around_ordered)
next
  case (SSphere b)
  with assms show ?thesis
    by (simp add: computeBV_AABB_Sphere_def Let_def aabb_around_ordered vec_constant_def)
next
  case (SEllipsoid b)
  then show ?thesis
    by (simp add: computeBV_AABB_Ellipsoid_def Let_def aabb_around_ordered)
next
  case (SCapsule b)
  with assms show ?thesis
    by (simp add: computeBV_AABB_Capsule_def Let_def aabb_around_ordered)
next
  case (SCone b)
  then show ?thesis
    by (simp add: computeBV_AABB_Cone_def Let_def aabb_around_ordered)
next
  case (SCylinder b)
  then show ?thesis
    by (simp add: computeBV_AABB_Cylinder_def Let_def aabb_around_ordered)
next
  case (SConvex b)
  with assms show ?thesis by (simp add: convex_ordered)
next
  case (STriangleP b)
  then show ?thesis by (simp add: triangle_ordered)
next
  case (SHalfspace b)
  then show ?thesis by (simp only: computeBV_AABB.simps halfspace_ordered)
next
  case (SPlane b)
  then show ?thesis by (simp add: plane_ordered)
qed

theorem computeBV_AABB_ordered_witness:
  "well_formed (SHalfspace \<lparr> hs_n = Vector3d (- 1) 0 0, hs_d = 1 \<rparr>)
   \<and> offset_in_range (SHalfspace \<lparr> hs_n = Vector3d (- 1) 0 0, hs_d = 1 \<rparr>) tf_identity
   \<and> aabb_ordered (computeBV_AABB (SHalfspace \<lparr> hs_n = Vector3d (- 1) 0 0, hs_d = 1 \<rparr>) tf_identity)
   \<and> computeBV_AABB (SHalfspace \<lparr> hs_n = Vector3d (- 1) 0 0, hs_d = 1 \<rparr>) tf_identity
       = \<lparr> aabb_min = Vector3d (- 1) (- FCL_REAL_max) (- FCL_REAL_max),
           aabb_max = Vector3d FCL_REAL_max FCL_REAL_max FCL_REAL_max \<rparr>
   \<and> well_formed (SSphere \<lparr> sphere_radius = 2 \<rparr>)
   \<and> offset_in_range (SSphere \<lparr> sphere_radius = 2 \<rparr>) tf_identity
   \<and> aabb_ordered (computeBV_AABB (SSphere \<lparr> sphere_radius = 2 \<rparr>) tf_identity)"
proof -
  have w: "well_formed (SHalfspace \<lparr> hs_n = Vector3d (- 1) 0 0, hs_d = 1 \<rparr>)" by simp
  have w2: "well_formed (SSphere \<lparr> sphere_radius = 2 \<rparr>)" by simp
  have o2: "offset_in_range (SSphere \<lparr> sphere_radius = 2 \<rparr>) tf_identity" by simp
  have o: "offset_in_range (SHalfspace \<lparr> hs_n = Vector3d (- 1) 0 0, hs_d = 1 \<rparr>) tf_identity"
    using FCL_REAL_max_ge_1
    by (simp add: transform_Halfspace_def Let_def tf_identity_def dot_def mat_vec_def
          mat_identity_def)
  have e: "computeBV_AABB (SHalfspace \<lparr> hs_n = Vector3d (- 1) 0 0, hs_d = 1 \<rparr>) tf_identity
       = \<lparr> aabb_min = Vector3d (- 1) (- FCL_REAL_max) (- FCL_REAL_max),
           aabb_max = Vector3d FCL_REAL_max FCL_REAL_max FCL_REAL_max \<rparr>"
    by (simp add: computeBV_AABB_Halfspace_def transform_Halfspace_def Let_def tf_identity_def
          dot_def mat_vec_def mat_identity_def vec_constant_def set_x_def)
  from computeBV_AABB_ordered [OF w, of tf_identity]
    computeBV_AABB_ordered [OF w2, of tf_identity]
  show ?thesis using w o e w2 o2 by simp
qed

section \<open>C10: the box of a composite bound is the box of its oriented box\<close>

text \<open>
  Claim C10. For every \<^verbatim>\<open>OBBRSS\<close> and every \<^verbatim>\<open>kIOS\<close>, the one-argument
  \<^verbatim>\<open>constructBox\<close> returns the box and the transform that \<^verbatim>\<open>constructBox\<close> returns on
  the contained \<^verbatim>\<open>OBB\<close>; replacing the \<^verbatim>\<open>RSS\<close> part, or the spheres and their count,
  changes nothing in the result.
\<close>

theorem constructBox_composite_is_obb:
  "constructBox_OBBRSS bv = constructBox_OBB (obbrss_obb bv)
   \<and> constructBox_kIOS k = constructBox_OBB (kios_obb k)
   \<and> constructBox_OBBRSS (bv\<lparr> obbrss_rss := r' \<rparr>) = constructBox_OBBRSS bv
   \<and> constructBox_kIOS (k\<lparr> spheres := ss, num_spheres := m \<rparr>) = constructBox_kIOS k"
  by (simp add: constructBox_OBBRSS_def constructBox_kIOS_def constructBox_OBB_def)

end
